theory Spec2Isabelle
  imports Complex_Main "HOL-Library.AList"
begin

section \<open>Python values, exceptions and clocks\<close>

text \<open>
  The exception classes the device layer raises or catches.  The spec's error names are
  Python built-ins in the source: \<open>NotConnected\<close> is a \<open>RuntimeError\<close>; \<open>OutOfRange\<close>,
  \<open>InvalidCycle\<close> and \<open>NotFound\<close> are \<open>ValueError\<close>s.
\<close>

datatype py_exception =
    RuntimeError | ValueError | TypeError | KeyError | AttributeError
  | NotImplementedError | OverflowError

abbreviation NotConnected :: py_exception where "NotConnected \<equiv> RuntimeError"
abbreviation OutOfRange :: py_exception where "OutOfRange \<equiv> ValueError"
abbreviation InvalidCycle :: py_exception where "InvalidCycle \<equiv> ValueError"
abbreviation NotFound :: py_exception where "NotFound \<equiv> ValueError"

text \<open>
  A dynamically typed argument, as \<open>set_parameter(parameter, value: Any)\<close> receives it.
  Finite floats are modelled by the reals they denote: the code only compares and stores
  them.
\<close>

datatype py_value = PyNone | PyBool bool | PyInt int | PyFloat real | PyStr string

text \<open>
  A \<open>datetime\<close> is its number of microseconds since the epoch, a \<open>timedelta\<close> a number of
  microseconds.
\<close>

type_synonym datetime = int
type_synonym timedelta = int

definition timedelta_minutes :: "int \<Rightarrow> timedelta" where
  "timedelta_minutes m = m * 60 * 1000000"

text \<open>\<open>str(device_id)\<close> for an \<open>int\<close>: the decimal numeral, with a sign when negative.\<close>

fun str_nat :: "nat \<Rightarrow> string" where
  "str_nat n =
     (if n < 10 then [''0123456789'' ! n]
      else str_nat (n div 10) @ [''0123456789'' ! (n mod 10)])"

declare str_nat.simps [simp del]

definition str :: "int \<Rightarrow> string" where
  "str i = (if i < 0 then CHR ''-'' # str_nat (nat (- i)) else str_nat (nat i))"

text \<open>
  A Python \<open>float\<close>: a finite value (kept as the real it denotes), an infinity, or NaN.
  \<open>float_less a b\<close> is the comparison \<open>a < b\<close>; a comparison that involves NaN is false.
\<close>

datatype float_value = Finite real | PosInf | NegInf | NaN

fun float_less :: "float_value \<Rightarrow> float_value \<Rightarrow> bool" where
  "float_less NaN b = False"
| "float_less a NaN = False"
| "float_less (Finite a) (Finite b) = (a < b)"
| "float_less (Finite a) PosInf = True"
| "float_less (Finite a) NegInf = False"
| "float_less PosInf b = False"
| "float_less NegInf NegInf = False"
| "float_less NegInf b = True"

text \<open>
  \<open>uuid.uuid4()\<close> belongs to Python's library, not to the repository.  What the device
  classes rely on is its contract: no two calls in a process return the same
  identifier.  The model is that contract.  The generator is a counter; a call returns
  the rendering of the counter and advances it, so that an identifier, once issued, is
  never issued again.  \<open>uuid_str\<close> stands for \<open>str\<close> of a UUID, which is one-to-one.
\<close>

type_synonym uuid_generator = nat

definition uuid_str :: "nat \<Rightarrow> string" where
  "uuid_str n = str_nat n"

definition uuid4 :: "uuid_generator \<Rightarrow> string \<times> uuid_generator" where
  "uuid4 g = (uuid_str g, Suc g)"

section \<open>\<open>device_communication/base_device.py\<close>\<close>

datatype DeviceStatus = DISCONNECTED | CONNECTING | CONNECTED | ERROR | IDLE

datatype ConnectionType = SERIAL | USB | ETHERNET | BLUETOOTH | WIFI | TCP

text \<open>\<open>DeviceStatus.X.value\<close>: the members are numbered by \<open>auto()\<close> from 1.\<close>

fun status_value :: "DeviceStatus \<Rightarrow> int" where
  "status_value DISCONNECTED = 1"
| "status_value CONNECTING = 2"
| "status_value CONNECTED = 3"
| "status_value ERROR = 4"
| "status_value IDLE = 5"

record BaseDevice =
  device_id :: string
  connection_type :: ConnectionType
  status :: DeviceStatus

section \<open>\<open>device_communication/heating_bed.py\<close>\<close>

record HeatingBed = BaseDevice +
  location :: string
  target_temperature :: float_value
  current_temperature :: float_value
  is_heating :: bool
  timestamp :: datetime

text \<open>
  \<open>self._safety_limits = {'min_temp': 20.0, 'max_temp': 42.0}\<close> is set by the constructor
  and never assigned again.
\<close>

definition min_temp :: float_value where "min_temp = Finite 20"
definition max_temp :: float_value where "max_temp = Finite 42"

definition HeatingBed_init :: "string \<Rightarrow> string \<Rightarrow> ConnectionType \<Rightarrow> datetime \<Rightarrow> HeatingBed" where
  "HeatingBed_init dev_id loc ct now =
     \<lparr>device_id = dev_id, connection_type = ct, status = DISCONNECTED,
      location = loc, target_temperature = Finite 37, current_temperature = Finite 37,
      is_heating = False, timestamp = now\<rparr>"

text \<open>
  \<open>set_temperature(temp: float)\<close>: raises \<open>ValueError\<close> when
  \<open>temp < min_temp or temp > max_temp\<close>, otherwise assigns \<open>target_temperature\<close>.  The
  device is returned in both cases, so that what a failed call leaves behind is visible.
\<close>

definition set_temperature :: "HeatingBed \<Rightarrow> float_value \<Rightarrow> (py_exception + unit) \<times> HeatingBed" where
  "set_temperature hb temp =
     (if float_less temp min_temp \<or> float_less max_temp temp then (Inl ValueError, hb)
      else (Inr (), hb\<lparr>target_temperature := temp\<rparr>))"

section \<open>\<open>device_communication/phototherapy_light.py\<close>\<close>

record session =
  session_duration :: int
  session_intensity :: int
  session_start_time :: datetime
  session_status :: string

record PhototherapyLight = BaseDevice +
  pl_location :: string
  active_sessions :: "string \<rightharpoonup> session"

definition PhototherapyLight_init :: "string \<Rightarrow> string \<Rightarrow> ConnectionType \<Rightarrow> PhototherapyLight" where
  "PhototherapyLight_init dev_id loc ct =
     \<lparr>device_id = dev_id, connection_type = ct, status = DISCONNECTED,
      pl_location = loc, active_sessions = Map.empty\<rparr>"

text \<open>\<open>BaseDevice.initialize\<close> and the subclass's \<open>connect\<close>.\<close>

definition pl_initialize :: "PhototherapyLight \<Rightarrow> bool \<times> PhototherapyLight" where
  "pl_initialize pl = (True, pl\<lparr>status := IDLE\<rparr>)"

definition pl_connect :: "PhototherapyLight \<Rightarrow> bool \<times> PhototherapyLight" where
  "pl_connect pl = (True, pl\<lparr>status := CONNECTED\<rparr>)"

text \<open>
  \<open>start_session(duration, intensity)\<close>.  The call reads the clock (\<open>now\<close> is
  \<open>datetime.now(UTC)\<close>) and, once both checks have passed, draws
  \<open>session_id = str(uuid.uuid4())\<close> from the generator \<open>g\<close>; a call that raises leaves the
  generator as it was.
\<close>

definition start_session ::
  "PhototherapyLight \<Rightarrow> int \<Rightarrow> int \<Rightarrow> datetime \<Rightarrow> uuid_generator
     \<Rightarrow> (py_exception + string) \<times> PhototherapyLight \<times> uuid_generator" where
  "start_session pl dur intensity now g =
     (if status pl \<noteq> CONNECTED then (Inl RuntimeError, pl, g)
      else if \<not> (0 \<le> intensity \<and> intensity \<le> 100) then (Inl ValueError, pl, g)
      else
        (case uuid4 g of
           (session_id, g') \<Rightarrow>
             (Inr session_id,
              pl\<lparr>active_sessions := (active_sessions pl)(session_id \<mapsto>
                   \<lparr>session_duration = dur, session_intensity = intensity,
                    session_start_time = now, session_status = ''running''\<rparr>)\<rparr>,
              g')))"

definition get_session :: "PhototherapyLight \<Rightarrow> string \<Rightarrow> py_exception + session" where
  "get_session pl session_id =
     (case active_sessions pl session_id of
        None \<Rightarrow> Inl ValueError
      | Some s \<Rightarrow> Inr s)"

definition stop_session :: "PhototherapyLight \<Rightarrow> string \<Rightarrow> (py_exception + unit) \<times> PhototherapyLight" where
  "stop_session pl session_id =
     (case active_sessions pl session_id of
        None \<Rightarrow> (Inl ValueError, pl)
      | Some s \<Rightarrow>
          (Inr (), pl\<lparr>active_sessions :=
                      (active_sessions pl)(session_id \<mapsto> s\<lparr>session_status := ''completed''\<rparr>)\<rparr>))"

text \<open>
  A history of calls on one phototherapy light, on the pair of the device and the
  process-wide generator.  An exception raised by a call is dropped (the caller caught
  it) and the device carries on in the state the call left.  \<open>Uuid_drawn_elsewhere\<close> is
  a call of \<open>uuid4\<close> by any other code of the process.
\<close>

datatype pl_call =
    Initialize
  | Connect
  | Start_session int int datetime
  | Stop_session string
  | Uuid_drawn_elsewhere

fun pl_apply :: "PhototherapyLight \<times> uuid_generator \<Rightarrow> pl_call \<Rightarrow> PhototherapyLight \<times> uuid_generator" where
  "pl_apply (pl, g) Initialize = (snd (pl_initialize pl), g)"
| "pl_apply (pl, g) Connect = (snd (pl_connect pl), g)"
| "pl_apply (pl, g) (Start_session d i now) = snd (start_session pl d i now g)"
| "pl_apply (pl, g) (Stop_session sid) = (snd (stop_session pl sid), g)"
| "pl_apply (pl, g) Uuid_drawn_elsewhere = (pl, snd (uuid4 g))"

fun pl_run :: "PhototherapyLight \<times> uuid_generator \<Rightarrow> pl_call list \<Rightarrow> PhototherapyLight \<times> uuid_generator" where
  "pl_run s [] = s"
| "pl_run s (c # cs) = pl_run (pl_apply s c) cs"

text \<open>The ids that the \<open>start_session\<close> calls of a history returned.\<close>

fun returned_ids :: "PhototherapyLight \<times> uuid_generator \<Rightarrow> pl_call list \<Rightarrow> string set" where
  "returned_ids s [] = {}"
| "returned_ids s (Start_session d i now # cs) =
     (case fst (start_session (fst s) d i now (snd s)) of
        Inl e \<Rightarrow> returned_ids (pl_apply s (Start_session d i now)) cs
      | Inr sid \<Rightarrow> insert sid (returned_ids (pl_apply s (Start_session d i now)) cs))"
| "returned_ids s (c # cs) = returned_ids (pl_apply s c) cs"

section \<open>\<open>device_communication/sterilizer.py\<close>\<close>

text \<open>
  A \<open>cycle_params\<close> dictionary holds at most the keys \<open>'temp'\<close> and \<open>'duration'\<close>; the empty
  dictionary has neither.
\<close>

record cycle_params =
  temp :: "real option"
  duration :: "int option"

definition empty_params :: cycle_params where
  "empty_params = \<lparr>temp = None, duration = None\<rparr>"

text \<open>\<open>self._cycle_types\<close>, set by the constructor and never assigned again.\<close>

definition cycle_types :: "string \<rightharpoonup> cycle_params" where
  "cycle_types =
     [''standard'' \<mapsto> \<lparr>temp = Some 134, duration = Some 20\<rparr>,
      ''quick'' \<mapsto> \<lparr>temp = Some 134, duration = Some 10\<rparr>,
      ''delicate'' \<mapsto> \<lparr>temp = Some 121, duration = Some 30\<rparr>]"

record cycle =
  cycle_type :: string
  cycle_temperature :: real
  cycle_duration :: int
  cycle_start_time :: datetime
  cycle_status :: string

record Sterilizer = BaseDevice +
  st_location :: string
  active_cycles :: "string \<rightharpoonup> cycle"

definition Sterilizer_init :: "string \<Rightarrow> string \<Rightarrow> ConnectionType \<Rightarrow> Sterilizer" where
  "Sterilizer_init dev_id loc ct =
     \<lparr>device_id = dev_id, connection_type = ct, status = DISCONNECTED,
      st_location = loc, active_cycles = Map.empty\<rparr>"

definition st_initialize :: "Sterilizer \<Rightarrow> bool \<times> Sterilizer" where
  "st_initialize st = (True, st\<lparr>status := IDLE\<rparr>)"

definition st_connect :: "Sterilizer \<Rightarrow> bool \<times> Sterilizer" where
  "st_connect st = (True, st\<lparr>status := CONNECTED\<rparr>)"

text \<open>
  \<open>start_cycle(temperature=None, duration=None, cycle_type='standard')\<close>; the clock and
  the generator as for \<open>start_session\<close>.  After the emptiness test the two subscripts
  \<open>cycle_params['temp']\<close> and \<open>cycle_params['duration']\<close> raise \<open>KeyError\<close> on a missing key;
  they come after the call of \<open>uuid4\<close>, so the generator has advanced when they raise.
\<close>

definition start_cycle ::
  "Sterilizer \<Rightarrow> real option \<Rightarrow> int option \<Rightarrow> string \<Rightarrow> datetime \<Rightarrow> uuid_generator
     \<Rightarrow> (py_exception + string) \<times> Sterilizer \<times> uuid_generator" where
  "start_cycle st temperature dur ctype now g =
     (if status st \<noteq> CONNECTED then (Inl RuntimeError, st, g)
      else
        let p0 = (case cycle_types ctype of None \<Rightarrow> empty_params | Some p \<Rightarrow> p);
            p1 = (case temperature of None \<Rightarrow> p0 | Some t \<Rightarrow> p0\<lparr>temp := Some t\<rparr>);
            p2 = (case dur of None \<Rightarrow> p1 | Some d \<Rightarrow> p1\<lparr>duration := Some d\<rparr>)
        in if p2 = empty_params then (Inl ValueError, st, g)
           else
             (case uuid4 g of
                (cycle_id, g') \<Rightarrow>
                  (case temp p2 of
                     None \<Rightarrow> (Inl KeyError, st, g')
                   | Some t \<Rightarrow>
                       (case duration p2 of
                          None \<Rightarrow> (Inl KeyError, st, g')
                        | Some d \<Rightarrow>
                            (Inr cycle_id,
                             st\<lparr>active_cycles := (active_cycles st)(cycle_id \<mapsto>
                                  \<lparr>cycle_type = ctype, cycle_temperature = t, cycle_duration = d,
                                   cycle_start_time = now, cycle_status = ''running''\<rparr>)\<rparr>,
                             g')))))"

definition abort_cycle :: "Sterilizer \<Rightarrow> string \<Rightarrow> (py_exception + unit) \<times> Sterilizer" where
  "abort_cycle st cycle_id =
     (case active_cycles st cycle_id of
        None \<Rightarrow> (Inl ValueError, st)
      | Some c \<Rightarrow>
          (Inr (), st\<lparr>active_cycles :=
                      (active_cycles st)(cycle_id \<mapsto> c\<lparr>cycle_status := ''aborted''\<rparr>)\<rparr>))"

text \<open>
  The parameters of a cycle as the spec resolves them, apart from the code: an explicit
  argument wins, otherwise the field of the named preset, if there is one.
\<close>

definition resolved_temperature :: "real option \<Rightarrow> string \<Rightarrow> real option" where
  "resolved_temperature temperature ctype =
     (case temperature of
        Some t \<Rightarrow> Some t
      | None \<Rightarrow> (case cycle_types ctype of None \<Rightarrow> None | Some p \<Rightarrow> temp p))"

definition resolved_duration :: "int option \<Rightarrow> string \<Rightarrow> int option" where
  "resolved_duration dur ctype =
     (case dur of
        Some d \<Rightarrow> Some d
      | None \<Rightarrow> (case cycle_types ctype of None \<Rightarrow> None | Some p \<Rightarrow> duration p))"

text \<open>A history of calls on one sterilizer, as for the phototherapy light.\<close>

datatype st_call =
    St_initialize
  | St_connect
  | Start_cycle "real option" "int option" string datetime
  | Abort_cycle string
  | St_uuid_drawn_elsewhere

fun st_apply :: "Sterilizer \<times> uuid_generator \<Rightarrow> st_call \<Rightarrow> Sterilizer \<times> uuid_generator" where
  "st_apply (st, g) St_initialize = (snd (st_initialize st), g)"
| "st_apply (st, g) St_connect = (snd (st_connect st), g)"
| "st_apply (st, g) (Start_cycle t d ctype now) = snd (start_cycle st t d ctype now g)"
| "st_apply (st, g) (Abort_cycle cid) = (snd (abort_cycle st cid), g)"
| "st_apply (st, g) St_uuid_drawn_elsewhere = (st, snd (uuid4 g))"

fun st_run :: "Sterilizer \<times> uuid_generator \<Rightarrow> st_call list \<Rightarrow> Sterilizer \<times> uuid_generator" where
  "st_run s [] = s"
| "st_run s (c # cs) = st_run (st_apply s c) cs"

text \<open>The ids that the \<open>start_cycle\<close> calls of a history returned.\<close>

fun returned_cycle_ids :: "Sterilizer \<times> uuid_generator \<Rightarrow> st_call list \<Rightarrow> string set" where
  "returned_cycle_ids s [] = {}"
| "returned_cycle_ids s (Start_cycle t d ctype now # cs) =
     (case fst (start_cycle (fst s) t d ctype now (snd s)) of
        Inl e \<Rightarrow> returned_cycle_ids (st_apply s (Start_cycle t d ctype now)) cs
      | Inr cid \<Rightarrow> insert cid (returned_cycle_ids (st_apply s (Start_cycle t d ctype now)) cs))"
| "returned_cycle_ids s (c # cs) = returned_cycle_ids (st_apply s c) cs"

section \<open>\<open>device_communication/surgical_light.py\<close>\<close>

record SurgicalLight = BaseDevice +
  light_intensity :: real
  focus_position :: real
  camera_active :: bool

definition SurgicalLight_init :: "string \<Rightarrow> ConnectionType \<Rightarrow> SurgicalLight" where
  "SurgicalLight_init dev_id ct =
     \<lparr>device_id = dev_id, connection_type = ct, status = DISCONNECTED,
      light_intensity = 0, focus_position = 0, camera_active = False\<rparr>"

text \<open>The keys of \<open>self._supported_parameters\<close>.\<close>

definition supported_parameters :: "string set" where
  "supported_parameters = {''light_intensity'', ''focus_position'', ''camera_active''}"

text \<open>
  The built-ins \<open>float(value)\<close> and \<open>bool(value)\<close>.  \<open>float\<close> of a \<open>str\<close> parses it; the parser
  is Python's and is passed in as \<open>parse\<close> (\<open>None\<close> when it raises \<open>ValueError\<close>).  \<open>float\<close>
  of an \<open>int\<close> beyond the range of a double raises \<open>OverflowError\<close>.
\<close>

definition py_float :: "(string \<Rightarrow> real option) \<Rightarrow> py_value \<Rightarrow> py_exception + real" where
  "py_float parse v =
     (case v of
        PyNone \<Rightarrow> Inl TypeError
      | PyBool b \<Rightarrow> Inr (if b then 1 else 0)
      | PyInt i \<Rightarrow> (if \<bar>i\<bar> < 2 ^ 1024 - 2 ^ 970 then Inr (real_of_int i) else Inl OverflowError)
      | PyFloat r \<Rightarrow> Inr r
      | PyStr s \<Rightarrow> (case parse s of None \<Rightarrow> Inl ValueError | Some r \<Rightarrow> Inr r))"

definition py_bool :: "py_value \<Rightarrow> bool" where
  "py_bool v =
     (case v of
        PyNone \<Rightarrow> False
      | PyBool b \<Rightarrow> b
      | PyInt i \<Rightarrow> i \<noteq> 0
      | PyFloat r \<Rightarrow> r \<noteq> 0
      | PyStr s \<Rightarrow> s \<noteq> [])"

text \<open>
  \<open>set_parameter(parameter, value)\<close>.  The \<open>try\<close> block catches \<open>ValueError\<close> and \<open>TypeError\<close>
  only, so any other exception of a conversion leaves the call.
\<close>

definition set_numeric ::
  "(string \<Rightarrow> real option) \<Rightarrow> SurgicalLight \<Rightarrow> (real \<Rightarrow> SurgicalLight) \<Rightarrow> py_value
     \<Rightarrow> (py_exception + bool) \<times> SurgicalLight" where
  "set_numeric parse sl store v =
     (case py_float parse v of
        Inl e \<Rightarrow> (if e = ValueError \<or> e = TypeError then (Inr False, sl) else (Inl e, sl))
      | Inr x \<Rightarrow> (if 0 \<le> x \<and> x \<le> 100 then (Inr True, store x) else (Inr False, sl)))"

definition set_parameter ::
  "(string \<Rightarrow> real option) \<Rightarrow> SurgicalLight \<Rightarrow> string \<Rightarrow> py_value
     \<Rightarrow> (py_exception + bool) \<times> SurgicalLight" where
  "set_parameter parse sl parameter v =
     (if parameter \<notin> supported_parameters then (Inr False, sl)
      else if parameter = ''light_intensity''
        then set_numeric parse sl (\<lambda>x. sl\<lparr>light_intensity := x\<rparr>) v
      else if parameter = ''focus_position''
        then set_numeric parse sl (\<lambda>x. sl\<lparr>focus_position := x\<rparr>) v
      else if parameter = ''camera_active''
        then (Inr True, sl\<lparr>camera_active := py_bool v\<rparr>)
      else (Inr False, sl))"

section \<open>\<open>business_logic/device_service.py\<close>\<close>

text \<open>The four concrete device classes; a method call dispatches on the class.\<close>

datatype device = HB HeatingBed | PL PhototherapyLight | ST Sterilizer | SL SurgicalLight

text \<open>Every class overrides \<open>connect\<close>, and each override sets \<open>CONNECTED\<close> and returns true.\<close>

fun connect :: "device \<Rightarrow> bool \<times> device" where
  "connect (HB d) = (True, HB (d\<lparr>status := CONNECTED\<rparr>))"
| "connect (PL d) = (True, PL (d\<lparr>status := CONNECTED\<rparr>))"
| "connect (ST d) = (True, ST (d\<lparr>status := CONNECTED\<rparr>))"
| "connect (SL d) = (True, SL (d\<lparr>status := CONNECTED\<rparr>))"

text \<open>
  \<open>get_status\<close> and \<open>get_parameters\<close> are overridden by \<open>SurgicalLight\<close> only; for the other
  classes the call reaches \<open>BaseDevice\<close>, whose body is \<open>raise NotImplementedError\<close>.
\<close>

fun get_status :: "device \<Rightarrow> py_exception + DeviceStatus" where
  "get_status (SL d) = Inr (status d)"
| "get_status _ = Inl NotImplementedError"

fun get_parameters :: "device \<Rightarrow> py_exception + (string \<times> py_value) list" where
  "get_parameters (SL d) =
     Inr [(''light_intensity'', PyFloat (light_intensity d)),
          (''focus_position'', PyFloat (focus_position d)),
          (''camera_active'', PyBool (camera_active d))]"
| "get_parameters _ = Inl NotImplementedError"

text \<open>
  A device id as a caller passes it.  The methods annotate it \<open>int\<close>, Python does not
  enforce that, and the keys of \<open>_active_devices\<close> are the strings \<open>str(device_id)\<close>; an
  \<open>int\<close> and a \<open>str\<close> are never equal as dictionary keys.
\<close>

datatype py_key = Int_key int | Str_key string

fun py_str :: "py_key \<Rightarrow> string" where
  "py_str (Int_key i) = str i"
| "py_str (Str_key s) = s"

text \<open>A row of the \<open>devices\<close> table (\<open>database/models.py\<close>), with the columns used here.\<close>

record Device_record =
  dr_name :: string
  dr_model :: "string option"
  dr_status :: int

text \<open>
  Modelled from the spec: the device directory behind \<open>self.db\<close>.  \<open>DatabaseManager\<close>
  defines neither \<open>get_by_id\<close> nor \<open>update\<close>; per the spec (sections 4.3 and 6) the
  directory maps a device id to its record, \<open>get_by_id\<close> reads it (nothing when absent)
  and \<open>update\<close> persists the record it is given.
\<close>

type_synonym directory = "py_key \<rightharpoonup> Device_record"

definition get_by_id :: "directory \<Rightarrow> py_key \<Rightarrow> Device_record option" where
  "get_by_id db dev_id = db dev_id"

definition update_record :: "directory \<Rightarrow> py_key \<Rightarrow> Device_record \<Rightarrow> directory" where
  "update_record db dev_id device_record = db(dev_id \<mapsto> device_record)"

record DeviceService =
  db :: directory
  active_devices :: "py_key \<rightharpoonup> device"

text \<open>
  \<open>DeviceFactory.create_device(self, device_type, *args, **kwargs)\<close> of \<open>base_device.py\<close>,
  as a function of its receiver.  A factory instance carries the registry
  \<open>_device_types\<close> of classes, each a callable on the remaining arguments; any other
  object has no attribute \<open>_device_types\<close>, and reading it raises \<open>AttributeError\<close>.
\<close>

datatype py_arg = Str_arg string | Connection_arg ConnectionType

datatype py_object =
    Factory_object "string \<rightharpoonup> (py_arg list \<Rightarrow> py_exception + device)"
  | Str_object string
  | None_object

definition create_device :: "py_object \<Rightarrow> string \<Rightarrow> py_arg list \<Rightarrow> py_exception + device" where
  "create_device self device_type args =
     (case self of
        Factory_object device_types \<Rightarrow>
          (case device_types device_type of
             None \<Rightarrow> Inl ValueError
           | Some device_class \<Rightarrow> device_class args)
      | _ \<Rightarrow> Inl AttributeError)"

text \<open>The value of the column \<open>device_record.model\<close> as a Python object: a \<open>str\<close> or \<open>None\<close>.\<close>

definition model_object :: "string option \<Rightarrow> py_object" where
  "model_object m = (case m of None \<Rightarrow> None_object | Some s \<Rightarrow> Str_object s)"

text \<open>
  \<open>device_instance.start_monitoring()\<close> and \<open>device.last_update\<close>: no class of the
  repository defines the method or assigns the attribute, so each raises
  \<open>AttributeError\<close>.
\<close>

definition start_monitoring :: "device \<Rightarrow> py_exception + unit" where
  "start_monitoring dev = Inl AttributeError"

definition last_update :: "device \<Rightarrow> py_exception + datetime" where
  "last_update dev = Inl AttributeError"

text \<open>What a call of \<open>connect_device\<close> did besides returning, in order.\<close>

datatype effect = Instance_constructed device | Monitoring_started string

text \<open>
  \<open>connect_device(device_id, connection_type)\<close>.  The source writes
  \<open>DeviceFactory.create_device(device_record.model, str(device_id), connection_type)\<close>: the
  method is called on the class, so \<open>device_record.model\<close> is bound to \<open>self\<close>,
  \<open>str(device_id)\<close> to \<open>device_type\<close> and \<open>connection_type\<close> is the one remaining argument.
  Everything from that call on is inside the \<open>try\<close>, whose handler returns false and
  undoes nothing.
\<close>

definition connect_device ::
  "DeviceService \<Rightarrow> py_key \<Rightarrow> ConnectionType \<Rightarrow> bool \<times> DeviceService \<times> effect list" where
  "connect_device ds dev_id ct =
     (case get_by_id (db ds) dev_id of
        None \<Rightarrow> (False, ds, [])
      | Some device_record \<Rightarrow>
          if active_devices ds dev_id = None then
            (case create_device (model_object (dr_model device_record)) (py_str dev_id)
                    [Connection_arg ct] of
               Inl e \<Rightarrow> (False, ds, [])
             | Inr device_instance \<Rightarrow>
                 (case connect device_instance of
                    (is_connected, inst) \<Rightarrow>
                      if is_connected then
                        let ds' = ds\<lparr>active_devices :=
                                       (active_devices ds)(Str_key (py_str dev_id) \<mapsto> inst),
                                     db := update_record (db ds) dev_id
                                             (device_record\<lparr>dr_status := status_value CONNECTED\<rparr>)\<rparr>
                        in (case start_monitoring inst of
                              Inl e \<Rightarrow> (False, ds', [Instance_constructed device_instance])
                            | Inr u \<Rightarrow>
                                (True, ds', [Instance_constructed device_instance,
                                             Monitoring_started (py_str dev_id)]))
                      else (False, ds, [Instance_constructed device_instance])))
          else (False, ds, []))"

text \<open>\<open>get_device_status(device_id)\<close>.\<close>

record status_dict =
  sd_status :: int
  sd_parameters :: "(string \<times> py_value) list"
  sd_last_update :: datetime

definition get_device_status ::
  "DeviceService \<Rightarrow> py_key \<Rightarrow> py_exception + status_dict option" where
  "get_device_status ds dev_id =
     (case active_devices ds (Str_key (py_str dev_id)) of
        None \<Rightarrow> Inr None
      | Some dev \<Rightarrow>
          (case get_status dev of
             Inl e \<Rightarrow> Inl e
           | Inr st \<Rightarrow>
               (case get_parameters dev of
                  Inl e \<Rightarrow> Inl e
                | Inr params \<Rightarrow>
                    (case last_update dev of
                       Inl e \<Rightarrow> Inl e
                     | Inr t \<Rightarrow>
                         Inr (Some \<lparr>sd_status = status_value st, sd_parameters = params,
                                    sd_last_update = t\<rparr>)))))"

text \<open>A sample row of the device directory.\<close>

definition sample_record :: Device_record where
  "sample_record = \<lparr>dr_name = ''Theatre light'', dr_model = Some ''SurgicalLight'', dr_status = 1\<rparr>"

section \<open>The monitor loops of the device managers\<close>

text \<open>
  Each manager runs \<open>while True\<close> over a poll of \<open>device_service.get_device_status\<close>.  One
  iteration is a function of what the iteration reads from outside the manager: the
  outcome of the status call, the clock, and the device record that
  \<open>get_device_by_id\<close> finds when an alert handler asks for it.  A run of the loop is the
  iteration folded over the list of polls made so far; the loop itself ends only by
  cancellation.
\<close>

datatype 'p poll_status =
    Status_raises
  | Status_none
  | Status_without_parameters
  | Status_parameters 'p

record 'p poll =
  poll_status :: "'p poll_status"
  utcnow :: datetime
  device_by_id :: "string option"

text \<open>The \<open>alert_details\<close> dictionary together with the other arguments of the sink.\<close>

record alert_record =
  ar_device_id :: int
  ar_alert_type :: string
  ar_device_name :: string
  ar_severity :: "string option"
  ar_cycle_id :: "string option"
  ar_values :: "(string \<times> real) list"
  ar_timestamp :: datetime

text \<open>
  Modelled from the spec: \<open>DeviceService.record_device_alert\<close>, which the managers call
  and no file defines.  Per the spec (section 4.5) it appends the alert to the device's
  activity record and always succeeds; the log is the list of alerts in the order
  received.
\<close>

definition record_device_alert :: "alert_record \<Rightarrow> alert_record list \<Rightarrow> alert_record list" where
  "record_device_alert a alog = alog @ [a]"

subsection \<open>\<open>business_logic/heating_bed_manager.py\<close>\<close>

record hb_parameters =
  hb_current_temperature :: "real option"
  hb_target_temperature :: "real option"

record temperature_alert =
  first_detected :: datetime
  alert_sent :: bool

text \<open>
  \<open>_temperature_alerts\<close> is kept as the list of its items in insertion order, with
  \<open>AList.update\<close> for an assignment to a key and \<open>AList.delete\<close> for \<open>del\<close>.
  \<open>recorded_alerts\<close> is the log of the alert sink.
\<close>

record HeatingBedManager =
  monitoring_tasks :: "string set"
  temperature_alerts :: "(string \<times> temperature_alert) list"
  recorded_alerts :: "alert_record list"

definition HeatingBedManager_init :: HeatingBedManager where
  "HeatingBedManager_init =
     \<lparr>monitoring_tasks = {}, temperature_alerts = [], recorded_alerts = []\<rparr>"

definition handle_temperature_alert ::
  "int \<Rightarrow> real \<Rightarrow> real \<Rightarrow> hb_parameters poll \<Rightarrow> alert_record list \<Rightarrow> alert_record list" where
  "handle_temperature_alert dev_id current_temp target_temp p alog =
     (case device_by_id p of
        None \<Rightarrow> alog
      | Some name \<Rightarrow>
          record_device_alert
            \<lparr>ar_device_id = dev_id, ar_alert_type = ''temperature_deviation'',
             ar_device_name = name,
             ar_severity = Some (if \<bar>current_temp - target_temp\<bar> > 2 then ''high'' else ''medium''),
             ar_cycle_id = None,
             ar_values = [(''current_temperature'', current_temp),
                          (''target_temperature'', target_temp),
                          (''deviation'', \<bar>current_temp - target_temp\<bar>)],
             ar_timestamp = utcnow p\<rparr> alog)"

definition five_minutes :: timedelta where
  "five_minutes = timedelta_minutes 5"

text \<open>
  One pass through the body of \<open>_monitor_temperature\<close>.  The \<open>except\<close> branch and the
  skipped cases leave the manager as it is.  The subscript
  \<open>self._temperature_alerts[str(device_id)]\<close> follows the insertion above it, so its
  \<open>KeyError\<close> case (which the \<open>except\<close> branch would absorb) is never taken.
\<close>

definition monitor_temperature_iteration ::
  "int \<Rightarrow> HeatingBedManager \<Rightarrow> hb_parameters poll \<Rightarrow> HeatingBedManager" where
  "monitor_temperature_iteration dev_id m p =
     (case poll_status p of
        Status_parameters params \<Rightarrow>
          (case hb_current_temperature params of
             None \<Rightarrow> m
           | Some current_temp \<Rightarrow>
               (case hb_target_temperature params of
                  None \<Rightarrow> m
                | Some target_temp \<Rightarrow>
                    if \<bar>current_temp - target_temp\<bar> > 1 then
                      let alerts =
                            (if map_of (temperature_alerts m) (str dev_id) = None
                             then AList.update (str dev_id)
                                    \<lparr>first_detected = utcnow p, alert_sent = False\<rparr>
                                    (temperature_alerts m)
                             else temperature_alerts m)
                      in (case map_of alerts (str dev_id) of
                            None \<Rightarrow> m\<lparr>temperature_alerts := alerts\<rparr>
                          | Some alert \<Rightarrow>
                              if \<not> alert_sent alert \<and> utcnow p - first_detected alert > five_minutes
                              then m\<lparr>temperature_alerts :=
                                        AList.update (str dev_id) (alert\<lparr>alert_sent := True\<rparr>) alerts,
                                      recorded_alerts :=
                                        handle_temperature_alert dev_id current_temp target_temp p
                                          (recorded_alerts m)\<rparr>
                              else m\<lparr>temperature_alerts := alerts\<rparr>)
                    else
                      (if map_of (temperature_alerts m) (str dev_id) \<noteq> None
                       then m\<lparr>temperature_alerts := AList.delete (str dev_id) (temperature_alerts m)\<rparr>
                       else m)))
      | _ \<Rightarrow> m)"

fun monitor_temperature ::
  "int \<Rightarrow> HeatingBedManager \<Rightarrow> hb_parameters poll list \<Rightarrow> HeatingBedManager" where
  "monitor_temperature dev_id m [] = m"
| "monitor_temperature dev_id m (p # ps) =
     monitor_temperature dev_id (monitor_temperature_iteration dev_id m p) ps"

definition start_temperature_monitoring :: "int \<Rightarrow> HeatingBedManager \<Rightarrow> HeatingBedManager" where
  "start_temperature_monitoring dev_id m =
     (if str dev_id \<notin> monitoring_tasks m
      then m\<lparr>monitoring_tasks := insert (str dev_id) (monitoring_tasks m)\<rparr>
      else m)"

definition stop_monitoring :: "int \<Rightarrow> HeatingBedManager \<Rightarrow> HeatingBedManager" where
  "stop_monitoring dev_id m =
     (if str dev_id \<in> monitoring_tasks m
      then m\<lparr>monitoring_tasks := monitoring_tasks m - {str dev_id},
             temperature_alerts :=
               (if map_of (temperature_alerts m) (str dev_id) \<noteq> None
                then AList.delete (str dev_id) (temperature_alerts m)
                else temperature_alerts m)\<rparr>
      else m)"

text \<open>
  The manager as a whole.  \<open>_monitor_temperature(device_id)\<close> runs only as the task that
  \<open>_start_temperature_monitoring\<close> registers under \<open>str(device_id)\<close>, and \<open>stop_monitoring\<close>
  cancels that task when it removes it, so an iteration for a device happens only while
  its key is in \<open>_monitoring_tasks\<close>.
\<close>

datatype hb_event =
    Start_monitoring int
  | Monitor_iteration int "hb_parameters poll"
  | Stop_monitoring int

fun hb_step :: "HeatingBedManager \<Rightarrow> hb_event \<Rightarrow> HeatingBedManager" where
  "hb_step m (Start_monitoring d) = start_temperature_monitoring d m"
| "hb_step m (Monitor_iteration d p) =
     (if str d \<in> monitoring_tasks m then monitor_temperature_iteration d m p else m)"
| "hb_step m (Stop_monitoring d) = stop_monitoring d m"

fun hb_run :: "HeatingBedManager \<Rightarrow> hb_event list \<Rightarrow> HeatingBedManager" where
  "hb_run m [] = m"
| "hb_run m (e # es) = hb_run (hb_step m e) es"

text \<open>What a poll shows about the deviation condition of the heating bed.\<close>

definition deviation_observed :: "hb_parameters poll \<Rightarrow> bool" where
  "deviation_observed p =
     (case poll_status p of
        Status_parameters params \<Rightarrow>
          (case (hb_current_temperature params, hb_target_temperature params) of
             (Some c, Some t) \<Rightarrow> \<bar>c - t\<bar> > 1
           | _ \<Rightarrow> False)
      | _ \<Rightarrow> False)"

definition deviation_cleared :: "hb_parameters poll \<Rightarrow> bool" where
  "deviation_cleared p =
     (case poll_status p of
        Status_parameters params \<Rightarrow>
          (case (hb_current_temperature params, hb_target_temperature params) of
             (Some c, Some t) \<Rightarrow> \<not> \<bar>c - t\<bar> > 1
           | _ \<Rightarrow> False)
      | _ \<Rightarrow> False)"

text \<open>
  The alert that a firing iteration hands to the sink at poll \<open>p\<close>: none when
  \<open>get_device_by_id\<close> finds no record.
\<close>

definition alert_of :: "int \<Rightarrow> hb_parameters poll \<Rightarrow> alert_record list" where
  "alert_of dev_id p =
     (case poll_status p of
        Status_parameters params \<Rightarrow>
          (case (hb_current_temperature params, hb_target_temperature params) of
             (Some c, Some t) \<Rightarrow> handle_temperature_alert dev_id c t p []
           | _ \<Rightarrow> [])
      | _ \<Rightarrow> [])"

text \<open>
  The debounce rule, stated apart from the loop: over the polls \<open>ps\<close> of a deviation
  first detected at time \<open>since\<close>, the alert is due at the first poll whose clock is
  more than five minutes past \<open>since\<close>, and only there.  For a whole onset the time of
  first detection is the clock of its first poll.
\<close>

definition debounced_alerts :: "int \<Rightarrow> datetime \<Rightarrow> hb_parameters poll list \<Rightarrow> alert_record list" where
  "debounced_alerts dev_id since ps =
     (case find (\<lambda>p. utcnow p - since > five_minutes) ps of
        None \<Rightarrow> []
      | Some p \<Rightarrow> alert_of dev_id p)"

definition onset_alerts :: "int \<Rightarrow> hb_parameters poll list \<Rightarrow> alert_record list" where
  "onset_alerts dev_id ps =
     (case ps of
        [] \<Rightarrow> []
      | p0 # rest \<Rightarrow> debounced_alerts dev_id (utcnow p0) (p0 # rest))"

text \<open>
  Sample polls: a bed at 38.5 against a target of 37.0 (the spec's deviation of 1.5),
  and the same bed back at 37.0, at a clock given in seconds.
\<close>

definition seconds :: "int \<Rightarrow> datetime" where
  "seconds n = n * 1000000"

definition deviating_poll :: "int \<Rightarrow> hb_parameters poll" where
  "deviating_poll n =
     \<lparr>poll_status = Status_parameters
        \<lparr>hb_current_temperature = Some (385 / 10), hb_target_temperature = Some 37\<rparr>,
      utcnow = seconds n, device_by_id = Some ''Bed 1''\<rparr>"

definition normal_poll :: "int \<Rightarrow> hb_parameters poll" where
  "normal_poll n =
     \<lparr>poll_status = Status_parameters
        \<lparr>hb_current_temperature = Some 37, hb_target_temperature = Some 37\<rparr>,
      utcnow = seconds n, device_by_id = Some ''Bed 1''\<rparr>"

subsection \<open>\<open>business_logic/sterilizer_manager.py\<close>\<close>

record cycle_info =
  ci_id :: "string option"
  ci_current_temperature :: "real option"
  ci_target_temperature :: "real option"
  ci_current_pressure :: "real option"
  ci_target_pressure :: "real option"

record st_parameters =
  st_cycle_active :: bool
  st_cycle_info :: "cycle_info option"

text \<open>\<open>params.get('cycle_info', {})\<close>: a missing entry is the empty dictionary.\<close>

definition empty_cycle_info :: cycle_info where
  "empty_cycle_info =
     \<lparr>ci_id = None, ci_current_temperature = None, ci_target_temperature = None,
      ci_current_pressure = None, ci_target_pressure = None\<rparr>"

text \<open>The truth value of a reading in a condition: \<open>None\<close> and zero are false.\<close>

definition truthy :: "real option \<Rightarrow> bool" where
  "truthy v = (case v of None \<Rightarrow> False | Some x \<Rightarrow> x \<noteq> 0)"

definition handle_cycle_alert ::
  "int \<Rightarrow> real \<Rightarrow> real \<Rightarrow> cycle_info \<Rightarrow> st_parameters poll \<Rightarrow> alert_record list
     \<Rightarrow> alert_record list" where
  "handle_cycle_alert dev_id temp_deviation pressure_deviation info p alog =
     (case device_by_id p of
        None \<Rightarrow> alog
      | Some name \<Rightarrow>
          record_device_alert
            \<lparr>ar_device_id = dev_id, ar_alert_type = ''cycle_deviation'',
             ar_device_name = name,
             ar_severity = Some (if temp_deviation > 3 \<or> pressure_deviation > 3 / 10
                                 then ''high'' else ''medium''),
             ar_cycle_id = ci_id info,
             ar_values = [(''temperature_deviation'', temp_deviation),
                          (''pressure_deviation'', pressure_deviation)],
             ar_timestamp = utcnow p\<rparr> alog)"

text \<open>
  One pass through the body of \<open>_monitor_cycle\<close>, on the log of the alert sink; the manager
  keeps no state between iterations.  The readings are kept as the reals they denote,
  so the two subtractions are exact and the thresholds are the rationals \<open>2\<close>, \<open>3\<close>,
  \<open>2/10\<close> and \<open>3/10\<close>: for readings whose difference lies within a rounding error of a
  threshold, the double-precision arithmetic of the source can decide a comparison the
  other way, and a NaN reading (true as a condition, false in every comparison) is not
  represented.  The guard on the four readings does not depend on either.
\<close>

definition monitor_cycle_iteration ::
  "int \<Rightarrow> alert_record list \<Rightarrow> st_parameters poll \<Rightarrow> alert_record list" where
  "monitor_cycle_iteration dev_id alog p =
     (case poll_status p of
        Status_parameters params \<Rightarrow>
          if st_cycle_active params then
            let info = (case st_cycle_info params of None \<Rightarrow> empty_cycle_info | Some i \<Rightarrow> i)
            in if truthy (ci_current_temperature info) \<and> truthy (ci_target_temperature info)
                  \<and> truthy (ci_current_pressure info) \<and> truthy (ci_target_pressure info)
               then
                 (case (ci_current_temperature info, ci_target_temperature info,
                        ci_current_pressure info, ci_target_pressure info) of
                    (Some current_temp, Some target_temp, Some current_pressure, Some target_pressure) \<Rightarrow>
                      let temp_deviation = \<bar>current_temp - target_temp\<bar>;
                          pressure_deviation = \<bar>current_pressure - target_pressure\<bar>
                      in if temp_deviation > 2 \<or> pressure_deviation > 2 / 10
                         then handle_cycle_alert dev_id temp_deviation pressure_deviation info p alog
                         else alog
                  | _ \<Rightarrow> alog)
               else alog
          else alog
      | _ \<Rightarrow> alog)"



text \<open>The four readings of a poll, \<open>None\<close> where the iteration finds none.\<close>

definition cycle_readings :: "st_parameters poll \<Rightarrow> real option list" where
  "cycle_readings p =
     (case poll_status p of
        Status_parameters params \<Rightarrow>
          (case st_cycle_info params of
             None \<Rightarrow> [None, None, None, None]
           | Some info \<Rightarrow>
               [ci_current_temperature info, ci_target_temperature info,
                ci_current_pressure info, ci_target_pressure info])
      | _ \<Rightarrow> [None, None, None, None])"

text \<open>A sample poll of a sterilizer in a cycle, with the four readings given.\<close>

definition cycle_poll :: "real \<Rightarrow> real \<Rightarrow> real \<Rightarrow> real \<Rightarrow> st_parameters poll" where
  "cycle_poll current_temp target_temp current_pressure target_pressure =
     \<lparr>poll_status = Status_parameters
        \<lparr>st_cycle_active = True,
         st_cycle_info = Some
           \<lparr>ci_id = Some ''cycle-1'',
            ci_current_temperature = Some current_temp, ci_target_temperature = Some target_temp,
            ci_current_pressure = Some current_pressure, ci_target_pressure = Some target_pressure\<rparr>\<rparr>,
      utcnow = 0, device_by_id = Some ''Autoclave 1''\<rparr>"

subsection \<open>\<open>business_logic/phototherapy_manager.py\<close>\<close>












subsection \<open>\<open>business_logic/surgical_light_manager.py\<close>\<close>







section \<open>Device classes: verified properties\<close>

subsection \<open>Identifiers drawn from \<open>uuid4\<close>\<close>

lemma digit_inj:
  assumes "a < 10" "b < 10" "''0123456789'' ! a = ''0123456789'' ! b"
  shows "a = b"
proof -
  have d: "distinct ''0123456789''" by simp
  have l: "length ''0123456789'' = 10" by simp
  show ?thesis using assms d l nth_eq_iff_index_eq [OF d, of a b] by simp
qed

lemma str_nat_small: "n < 10 \<Longrightarrow> str_nat n = [''0123456789'' ! n]"
  by (subst str_nat.simps) simp

lemma str_nat_large:
  "\<not> n < 10 \<Longrightarrow> str_nat n = str_nat (n div 10) @ [''0123456789'' ! (n mod 10)]"
  by (subst str_nat.simps) simp

lemma str_nat_not_Nil: "str_nat n \<noteq> []"
  by (cases "n < 10") (simp_all add: str_nat_small str_nat_large)

lemma str_nat_inj: "str_nat a = str_nat b \<Longrightarrow> a = b"
proof (induction a arbitrary: b rule: str_nat.induct)
  case (1 n)
  show ?case
  proof (cases "n < 10")
    case True
    then have n: "str_nat n = [''0123456789'' ! n]" by (rule str_nat_small)
    show ?thesis
    proof (cases "b < 10")
      case b: True
      then have "str_nat b = [''0123456789'' ! b]" by (rule str_nat_small)
      then have "''0123456789'' ! n = ''0123456789'' ! b" using n "1.prems" by simp
      then show ?thesis using True b by (intro digit_inj)
    next
      case b: False
      then have "str_nat b = str_nat (b div 10) @ [''0123456789'' ! (b mod 10)]"
        by (rule str_nat_large)
      then have "str_nat (b div 10) = []" using n "1.prems" by simp
      then show ?thesis using str_nat_not_Nil by blast
    qed
  next
    case False
    then have n: "str_nat n = str_nat (n div 10) @ [''0123456789'' ! (n mod 10)]"
      by (rule str_nat_large)
    show ?thesis
    proof (cases "b < 10")
      case b: True
      then have "str_nat b = [''0123456789'' ! b]" by (rule str_nat_small)
      then have "str_nat (n div 10) = []" using n "1.prems" by simp
      then show ?thesis using str_nat_not_Nil by blast
    next
      case b: False
      then have "str_nat b = str_nat (b div 10) @ [''0123456789'' ! (b mod 10)]"
        by (rule str_nat_large)
      then have e: "str_nat (n div 10) = str_nat (b div 10)"
        "''0123456789'' ! (n mod 10) = ''0123456789'' ! (b mod 10)"
        using n "1.prems" by simp_all
      have q: "n div 10 = b div 10" using "1.IH" [OF False e(1)] .
      have r: "n mod 10 = b mod 10" using e(2) by (intro digit_inj) simp_all
      show ?thesis using q r by (metis div_mult_mod_eq)
    qed
  qed
qed

lemma uuid_str_inj: "uuid_str a = uuid_str b \<Longrightarrow> a = b"
  unfolding uuid_str_def by (rule str_nat_inj)

lemma uuid_fresh:
  assumes "\<forall>k \<in> ids. \<exists>n<g. k = uuid_str n"
  shows "uuid_str g \<notin> ids"
proof
  assume "uuid_str g \<in> ids"
  then obtain n where "n < g" "uuid_str g = uuid_str n" using assms by blast
  then show False using uuid_str_inj by blast
qed

subsection \<open>The temperature check of the heating bed\<close>

text \<open>
  C2.  The claim has \<open>HeatingBed.set_temperature(t)\<close> succeed exactly when
  \<open>20 \<le> t \<le> 42\<close>, and fail with \<open>OutOfRange\<close>, changing nothing, for every other \<open>t\<close>.  The
  code rejects \<open>t\<close> when \<open>t < 20\<close> or \<open>t > 42\<close>; both comparisons are false for a NaN, so
  \<open>set_temperature(float('nan'))\<close> returns normally and the target temperature of the bed
  becomes NaN, a value that is not in the range.
\<close>

theorem set_temperature_accepts_nan:
  "set_temperature (HeatingBed_init ''TEST-HB-001'' ''Test Room'' TCP 0) NaN
     = (Inr (), (HeatingBed_init ''TEST-HB-001'' ''Test Room'' TCP 0)\<lparr>target_temperature := NaN\<rparr>)"
  by (simp add: set_temperature_def min_temp_def max_temp_def)

text \<open>
  For every other float the check does what the claim says: a finite value is accepted
  exactly in the closed range, and both infinities are rejected.
\<close>

lemma set_temperature_finite_range:
  "(fst (set_temperature hb (Finite t)) = Inr () \<longleftrightarrow> 20 \<le> t \<and> t \<le> 42)
   \<and> (\<not> (20 \<le> t \<and> t \<le> 42) \<longrightarrow> set_temperature hb (Finite t) = (Inl OutOfRange, hb))
   \<and> (20 \<le> t \<and> t \<le> 42 \<longrightarrow>
        set_temperature hb (Finite t) = (Inr (), hb\<lparr>target_temperature := Finite t\<rparr>))
   \<and> set_temperature hb PosInf = (Inl OutOfRange, hb)
   \<and> set_temperature hb NegInf = (Inl OutOfRange, hb)"
  by (auto simp: set_temperature_def min_temp_def max_temp_def)

subsection \<open>Sterilizer cycles\<close>

lemma cycle_types_cases:
  "cycle_types ctype = None \<and> ctype \<noteq> ''standard'' \<and> ctype \<noteq> ''quick'' \<and> ctype \<noteq> ''delicate''
   \<or> ctype = ''standard'' \<and> cycle_types ctype = Some \<lparr>temp = Some 134, duration = Some 20\<rparr>
   \<or> ctype = ''quick'' \<and> cycle_types ctype = Some \<lparr>temp = Some 134, duration = Some 10\<rparr>
   \<or> ctype = ''delicate'' \<and> cycle_types ctype = Some \<lparr>temp = Some 121, duration = Some 30\<rparr>"
  by (simp add: cycle_types_def)

lemma start_cycle_resolved:
  assumes "status st = CONNECTED"
  shows "start_cycle st temperature dur ctype now g =
           (if cycle_types ctype = None \<and> temperature = None \<and> dur = None
            then (Inl ValueError, st, g)
            else case resolved_temperature temperature ctype of
                   None \<Rightarrow> (Inl KeyError, st, Suc g)
                 | Some t \<Rightarrow>
                     (case resolved_duration dur ctype of
                        None \<Rightarrow> (Inl KeyError, st, Suc g)
                      | Some d \<Rightarrow>
                          (Inr (uuid_str g),
                           st\<lparr>active_cycles := (active_cycles st)(uuid_str g \<mapsto>
                                \<lparr>cycle_type = ctype, cycle_temperature = t, cycle_duration = d,
                                 cycle_start_time = now, cycle_status = ''running''\<rparr>)\<rparr>,
                           Suc g)))"
proof -
  consider (unknown) "cycle_types ctype = None"
    | (known) t0 d0 where "cycle_types ctype = Some \<lparr>temp = Some t0, duration = Some d0\<rparr>"
    using cycle_types_cases [of ctype] by auto
  then show ?thesis
  proof cases
    case unknown
    then show ?thesis using assms
      by (cases temperature; cases dur)
         (simp_all add: start_cycle_def resolved_temperature_def resolved_duration_def
                        empty_params_def uuid4_def)
  next
    case known
    then show ?thesis using assms
      by (cases temperature; cases dur)
         (simp_all add: start_cycle_def resolved_temperature_def resolved_duration_def
                        empty_params_def uuid4_def)
  qed
qed

lemma start_cycle_not_connected:
  "status st \<noteq> CONNECTED \<Longrightarrow> start_cycle st temperature dur ctype now g = (Inl RuntimeError, st, g)"
  by (simp add: start_cycle_def)

lemma start_cycle_cases:
  "(\<exists>c. start_cycle st temperature dur ctype now g =
          (Inr (uuid_str g), st\<lparr>active_cycles := (active_cycles st)(uuid_str g \<mapsto> c)\<rparr>, Suc g))
   \<or> (\<exists>e g'. start_cycle st temperature dur ctype now g = (Inl e, st, g') \<and> g \<le> g')"
proof (cases "status st = CONNECTED")
  case True
  show ?thesis unfolding start_cycle_resolved [OF True]
    by (auto split: option.splits)
next
  case False
  then show ?thesis by (simp add: start_cycle_not_connected)
qed

lemma st_apply_step:
  "(\<exists>c. st_apply (st, g) call =
          (st\<lparr>active_cycles := (active_cycles st)(uuid_str g \<mapsto> c)\<rparr>, Suc g)
      \<and> returned_cycle_ids (st, g) [call] = {uuid_str g})
   \<or> (returned_cycle_ids (st, g) [call] = {} \<and> g \<le> snd (st_apply (st, g) call)
       \<and> dom (active_cycles (fst (st_apply (st, g) call))) = dom (active_cycles st))"
proof (cases call)
  case (Start_cycle t d ctype now)
  from start_cycle_cases [of st t d ctype now g] show ?thesis
  proof (elim disjE exE conjE)
    fix c assume "start_cycle st t d ctype now g =
          (Inr (uuid_str g), st\<lparr>active_cycles := (active_cycles st)(uuid_str g \<mapsto> c)\<rparr>, Suc g)"
    then show ?thesis using Start_cycle by auto
  next
    fix e g' assume "start_cycle st t d ctype now g = (Inl e, st, g')" "g \<le> g'"
    then show ?thesis using Start_cycle by simp
  qed
next
  case (Abort_cycle cid)
  then show ?thesis by (auto simp: abort_cycle_def split: option.splits)
qed (auto simp: st_initialize_def st_connect_def uuid4_def)

lemma returned_cycle_ids_Cons:
  "returned_cycle_ids s (c # cs) = returned_cycle_ids s [c] \<union> returned_cycle_ids (st_apply s c) cs"
  by (cases c) (auto split: sum.splits)

lemma st_apply_issued:
  assumes "\<forall>k \<in> dom (active_cycles st). \<exists>n<g. k = uuid_str n"
  shows "\<forall>k \<in> dom (active_cycles (fst (st_apply (st, g) call))).
           \<exists>n < snd (st_apply (st, g) call). k = uuid_str n"
proof -
  consider (start) c where
      "st_apply (st, g) call =
          (st\<lparr>active_cycles := (active_cycles st)(uuid_str g \<mapsto> c)\<rparr>, Suc g)"
    | (other) "g \<le> snd (st_apply (st, g) call)"
        "dom (active_cycles (fst (st_apply (st, g) call))) = dom (active_cycles st)"
    using st_apply_step [of st g call] by blast
  then show ?thesis
  proof cases
    case start
    show ?thesis
    proof
      fix k assume "k \<in> dom (active_cycles (fst (st_apply (st, g) call)))"
      then have "k = uuid_str g \<or> k \<in> dom (active_cycles st)"
        unfolding start by (auto split: if_splits)
      then show "\<exists>n < snd (st_apply (st, g) call). k = uuid_str n"
        unfolding start using assms by (auto intro: less_SucI)
    qed
  next
    case other
    show ?thesis
    proof
      fix k assume "k \<in> dom (active_cycles (fst (st_apply (st, g) call)))"
      then have "k \<in> dom (active_cycles st)" unfolding other(2) .
      then obtain n where "n < g" "k = uuid_str n" using assms by blast
      then show "\<exists>n < snd (st_apply (st, g) call). k = uuid_str n"
        using other(1) by (intro exI [of _ n]) simp
    qed
  qed
qed

lemma st_run_issued:
  assumes "\<forall>k \<in> dom (active_cycles st). \<exists>n<g. k = uuid_str n"
  shows "\<forall>k \<in> dom (active_cycles (fst (st_run (st, g) calls))).
           \<exists>n < snd (st_run (st, g) calls). k = uuid_str n"
  using assms
proof (induction calls arbitrary: st g)
  case Nil
  then show ?case by simp
next
  case (Cons c cs)
  obtain st1 g1 where e: "st_apply (st, g) c = (st1, g1)" by (cases "st_apply (st, g) c")
  have "\<forall>k \<in> dom (active_cycles st1). \<exists>n<g1. k = uuid_str n"
    using st_apply_issued [OF Cons.prems, of c] e by simp
  from Cons.IH [OF this] e show ?case by simp
qed

lemma st_run_cycles_dom:
  "dom (active_cycles (fst (st_run (st, g) calls)))
     = dom (active_cycles st) \<union> returned_cycle_ids (st, g) calls"
proof (induction calls arbitrary: st g)
  case Nil
  show ?case by simp
next
  case (Cons c cs)
  obtain st1 g1 where e: "st_apply (st, g) c = (st1, g1)" by (cases "st_apply (st, g) c")
  have s: "dom (active_cycles st1) = dom (active_cycles st) \<union> returned_cycle_ids (st, g) [c]"
    using st_apply_step [of st g c] e by auto
  have "dom (active_cycles (fst (st_run (st, g) (c # cs))))
          = dom (active_cycles st1) \<union> returned_cycle_ids (st1, g1) cs"
    using Cons.IH [of st1 g1] e by simp
  also have "\<dots> = dom (active_cycles st) \<union> (returned_cycle_ids (st, g) [c] \<union> returned_cycle_ids (st1, g1) cs)"
    unfolding s by (rule Un_assoc)
  also have "\<dots> = dom (active_cycles st) \<union> returned_cycle_ids (st, g) (c # cs)"
    using returned_cycle_ids_Cons [of "(st, g)" c cs] e by simp
  finally show ?case .
qed

lemma start_cycle_started:
  assumes "status st = CONNECTED"
      and "resolved_temperature temperature ctype = Some t"
      and "resolved_duration dur ctype = Some d"
  shows "start_cycle st temperature dur ctype now g =
           (Inr (uuid_str g),
            st\<lparr>active_cycles := (active_cycles st)(uuid_str g \<mapsto>
                 \<lparr>cycle_type = ctype, cycle_temperature = t, cycle_duration = d,
                  cycle_start_time = now, cycle_status = ''running''\<rparr>)\<rparr>,
            Suc g)"
proof -
  have "\<not> (cycle_types ctype = None \<and> temperature = None \<and> dur = None)"
    using assms(2) by (auto simp: resolved_temperature_def)
  then show ?thesis
    unfolding start_cycle_resolved [OF assms(1)] using assms(2,3) by simp
qed

text \<open>
  C5.  Take a sterilizer after any history of calls since its construction, connected.
  \<open>start_cycle\<close> resolves each of temperature and duration to the explicit argument if
  one is given and otherwise to the field of the named preset (standard 134/20, quick
  134/10, delicate 121/30).  When both resolve, also for an unknown cycle type with
  both arguments given, the call succeeds: it returns an identifier that is not a key
  of the device's cycle records and that no earlier \<open>start_cycle\<close> of the history
  returned, stores under it a record with the resolved values and status \<open>running\<close>,
  and leaves the records under other identifiers alone.  The call succeeds only when
  both resolve.  It fails with \<open>InvalidCycle\<close> exactly when the cycle type is unknown and
  neither argument is given, and then changes nothing.  In particular
  \<open>start_cycle(cycle_type='standard')\<close> records 134 and 20, and with \<open>temperature=120\<close>
  it records 120 and 20.
\<close>

theorem start_cycle_presets:
  assumes "(st, g) = st_run (Sterilizer_init dev loc ct, g0) history"
      and "status st = CONNECTED"
  shows
  "(resolved_temperature temperature ctype = Some t \<and> resolved_duration dur ctype = Some d \<longrightarrow>
      (\<exists>cid st' g'. start_cycle st temperature dur ctype now g = (Inr cid, st', g')
         \<and> cid \<notin> dom (active_cycles st)
         \<and> cid \<notin> returned_cycle_ids (Sterilizer_init dev loc ct, g0) history
         \<and> active_cycles st' cid =
             Some \<lparr>cycle_type = ctype, cycle_temperature = t, cycle_duration = d,
                   cycle_start_time = now, cycle_status = ''running''\<rparr>
         \<and> (\<forall>k. k \<noteq> cid \<longrightarrow> active_cycles st' k = active_cycles st k)))
   \<and> ((\<exists>cid. fst (start_cycle st temperature dur ctype now g) = Inr cid)
        \<longleftrightarrow> resolved_temperature temperature ctype \<noteq> None \<and> resolved_duration dur ctype \<noteq> None)
   \<and> (fst (start_cycle st temperature dur ctype now g) = Inl InvalidCycle
        \<longleftrightarrow> cycle_types ctype = None \<and> temperature = None \<and> dur = None)
   \<and> (fst (start_cycle st temperature dur ctype now g) = Inl InvalidCycle \<longrightarrow>
        snd (start_cycle st temperature dur ctype now g) = (st, g))
   \<and> (\<exists>cid st' g'. start_cycle st None None ''standard'' now g = (Inr cid, st', g')
         \<and> active_cycles st' cid =
             Some \<lparr>cycle_type = ''standard'', cycle_temperature = 134, cycle_duration = 20,
                   cycle_start_time = now, cycle_status = ''running''\<rparr>)
   \<and> (\<exists>cid st' g'. start_cycle st (Some 120) None ''standard'' now g = (Inr cid, st', g')
         \<and> active_cycles st' cid =
             Some \<lparr>cycle_type = ''standard'', cycle_temperature = 120, cycle_duration = 20,
                   cycle_start_time = now, cycle_status = ''running''\<rparr>)
   \<and> (\<exists>cid st' g'. start_cycle st None None ''quick'' now g = (Inr cid, st', g')
         \<and> active_cycles st' cid =
             Some \<lparr>cycle_type = ''quick'', cycle_temperature = 134, cycle_duration = 10,
                   cycle_start_time = now, cycle_status = ''running''\<rparr>)
   \<and> (\<exists>cid st' g'. start_cycle st None None ''delicate'' now g = (Inr cid, st', g')
         \<and> active_cycles st' cid =
             Some \<lparr>cycle_type = ''delicate'', cycle_temperature = 121, cycle_duration = 30,
                   cycle_start_time = now, cycle_status = ''running''\<rparr>)"
proof -
  let ?init = "Sterilizer_init dev loc ct"
  have st: "st = fst (st_run (?init, g0) history)" and g: "g = snd (st_run (?init, g0) history)"
    using assms(1) by (metis fst_conv, metis snd_conv)
  have empty: "dom (active_cycles ?init) = {}" by (simp add: Sterilizer_init_def)
  have keys: "dom (active_cycles st) = returned_cycle_ids (?init, g0) history"
    unfolding st st_run_cycles_dom empty by simp
  have issued: "\<forall>k \<in> dom (active_cycles st). \<exists>n<g. k = uuid_str n"
    unfolding st g by (rule st_run_issued) (simp add: empty)
  have fresh: "uuid_str g \<notin> dom (active_cycles st)"
    using issued by (rule uuid_fresh)
  have fresh2: "uuid_str g \<notin> returned_cycle_ids (?init, g0) history"
    using fresh keys by simp
  note conn = assms(2)
  have general: "\<exists>cid st' g'. start_cycle st temperature dur ctype now g = (Inr cid, st', g')
         \<and> cid \<notin> dom (active_cycles st)
         \<and> cid \<notin> returned_cycle_ids (?init, g0) history
         \<and> active_cycles st' cid =
             Some \<lparr>cycle_type = ctype, cycle_temperature = t, cycle_duration = d,
                   cycle_start_time = now, cycle_status = ''running''\<rparr>
         \<and> (\<forall>k. k \<noteq> cid \<longrightarrow> active_cycles st' k = active_cycles st k)"
    if "resolved_temperature temperature ctype = Some t" "resolved_duration dur ctype = Some d"
    using start_cycle_started [OF conn that, of now g] fresh fresh2 by simp
  have succ: "(\<exists>cid. fst (start_cycle st temperature dur ctype now g) = Inr cid)
        \<longleftrightarrow> resolved_temperature temperature ctype \<noteq> None \<and> resolved_duration dur ctype \<noteq> None"
    unfolding start_cycle_resolved [OF conn]
    by (auto simp: resolved_temperature_def resolved_duration_def split: option.splits)
  have inv: "fst (start_cycle st temperature dur ctype now g) = Inl InvalidCycle
        \<longleftrightarrow> cycle_types ctype = None \<and> temperature = None \<and> dur = None"
    unfolding start_cycle_resolved [OF conn] by (simp split: option.splits)
  have inv2: "snd (start_cycle st temperature dur ctype now g) = (st, g)"
    if "fst (start_cycle st temperature dur ctype now g) = Inl InvalidCycle"
    using that inv by (simp add: start_cycle_resolved [OF conn])
  have ex: "\<exists>cid st' g'. start_cycle st a b ty now g = (Inr cid, st', g')
         \<and> active_cycles st' cid =
             Some \<lparr>cycle_type = ty, cycle_temperature = t', cycle_duration = d',
                   cycle_start_time = now, cycle_status = ''running''\<rparr>"
    if "resolved_temperature a ty = Some t'" "resolved_duration b ty = Some d'" for a b ty t' d'
    using start_cycle_started [OF conn that, of now g] by simp
  have e1: "\<exists>cid st' g'. start_cycle st None None ''standard'' now g = (Inr cid, st', g')
         \<and> active_cycles st' cid =
             Some \<lparr>cycle_type = ''standard'', cycle_temperature = 134, cycle_duration = 20,
                   cycle_start_time = now, cycle_status = ''running''\<rparr>"
    by (rule ex) (simp_all add: resolved_temperature_def resolved_duration_def cycle_types_def)
  have e2: "\<exists>cid st' g'. start_cycle st (Some 120) None ''standard'' now g = (Inr cid, st', g')
         \<and> active_cycles st' cid =
             Some \<lparr>cycle_type = ''standard'', cycle_temperature = 120, cycle_duration = 20,
                   cycle_start_time = now, cycle_status = ''running''\<rparr>"
    by (rule ex) (simp_all add: resolved_temperature_def resolved_duration_def cycle_types_def)
  have e3: "\<exists>cid st' g'. start_cycle st None None ''quick'' now g = (Inr cid, st', g')
         \<and> active_cycles st' cid =
             Some \<lparr>cycle_type = ''quick'', cycle_temperature = 134, cycle_duration = 10,
                   cycle_start_time = now, cycle_status = ''running''\<rparr>"
    by (rule ex) (simp_all add: resolved_temperature_def resolved_duration_def cycle_types_def)
  have e4: "\<exists>cid st' g'. start_cycle st None None ''delicate'' now g = (Inr cid, st', g')
         \<and> active_cycles st' cid =
             Some \<lparr>cycle_type = ''delicate'', cycle_temperature = 121, cycle_duration = 30,
                   cycle_start_time = now, cycle_status = ''running''\<rparr>"
    by (rule ex) (simp_all add: resolved_temperature_def resolved_duration_def cycle_types_def)
  show ?thesis
    using general succ inv inv2 e1 e2 e3 e4 by (intro conjI impI) blast+
qed

theorem start_cycle_presets_witness:
  "status (fst (st_run (Sterilizer_init ''TEST-ST-001'' ''Test Room'' TCP, 0)
             [St_initialize, St_connect, Start_cycle None None ''quick'' 0])) = CONNECTED
   \<and> resolved_temperature (Some 120) ''standard'' = Some 120
   \<and> resolved_duration None ''standard'' = Some 20
   \<and> (\<exists>cid st' g'.
         start_cycle
           (fst (st_run (Sterilizer_init ''TEST-ST-001'' ''Test Room'' TCP, 0)
                  [St_initialize, St_connect, Start_cycle None None ''quick'' 0]))
           (Some 120) None ''standard'' 5
           (snd (st_run (Sterilizer_init ''TEST-ST-001'' ''Test Room'' TCP, 0)
                  [St_initialize, St_connect, Start_cycle None None ''quick'' 0]))
           = (Inr cid, st', g')
         \<and> cid \<notin> dom (active_cycles
               (fst (st_run (Sterilizer_init ''TEST-ST-001'' ''Test Room'' TCP, 0)
                      [St_initialize, St_connect, Start_cycle None None ''quick'' 0])))
         \<and> active_cycles st' cid =
             Some \<lparr>cycle_type = ''standard'', cycle_temperature = 120, cycle_duration = 20,
                   cycle_start_time = 5, cycle_status = ''running''\<rparr>)
   \<and> fst (start_cycle
           (fst (st_run (Sterilizer_init ''TEST-ST-001'' ''Test Room'' TCP, 0)
                  [St_initialize, St_connect, Start_cycle None None ''quick'' 0]))
           None None ''bogus'' 5
           (snd (st_run (Sterilizer_init ''TEST-ST-001'' ''Test Room'' TCP, 0)
                  [St_initialize, St_connect, Start_cycle None None ''quick'' 0])))
       = Inl InvalidCycle
   \<and> snd (start_cycle
           (fst (st_run (Sterilizer_init ''TEST-ST-001'' ''Test Room'' TCP, 0)
                  [St_initialize, St_connect, Start_cycle None None ''quick'' 0]))
           None None ''bogus'' 5
           (snd (st_run (Sterilizer_init ''TEST-ST-001'' ''Test Room'' TCP, 0)
                  [St_initialize, St_connect, Start_cycle None None ''quick'' 0])))
       = st_run (Sterilizer_init ''TEST-ST-001'' ''Test Room'' TCP, 0)
           [St_initialize, St_connect, Start_cycle None None ''quick'' 0]"
proof -
  let ?init = "Sterilizer_init ''TEST-ST-001'' ''Test Room'' TCP"
  let ?h = "[St_initialize, St_connect, Start_cycle None None ''quick'' 0]"
  let ?r = "st_run (?init, 0) ?h"
  have h: "(fst ?r, snd ?r) = ?r" by (rule prod.collapse)
  have c: "status (fst ?r) = CONNECTED"
    by (simp add: st_initialize_def st_connect_def Sterilizer_init_def start_cycle_def
          cycle_types_def empty_params_def uuid4_def)
  have rt: "resolved_temperature (Some 120) ''standard'' = Some 120"
    by (simp add: resolved_temperature_def)
  have rd: "resolved_duration None ''standard'' = Some 20"
    by (simp add: resolved_duration_def cycle_types_def)
  have n: "cycle_types ''bogus'' = None" by (simp add: cycle_types_def)
  note t1 = start_cycle_presets [OF h c, where temperature = "Some 120" and ctype = "''standard''"
              and dur = None and t = 120 and d = 20 and now = 5]
  note t2 = start_cycle_presets [OF h c, where temperature = None and ctype = "''bogus''"
              and dur = None and t = 120 and d = 20 and now = 5]
  have a1: "\<exists>cid st' g'.
         start_cycle (fst ?r) (Some 120) None ''standard'' 5 (snd ?r) = (Inr cid, st', g')
         \<and> cid \<notin> dom (active_cycles (fst ?r))
         \<and> active_cycles st' cid =
             Some \<lparr>cycle_type = ''standard'', cycle_temperature = 120, cycle_duration = 20,
                   cycle_start_time = 5, cycle_status = ''running''\<rparr>"
    using t1 rt rd by blast
  have a2: "fst (start_cycle (fst ?r) None None ''bogus'' 5 (snd ?r)) = Inl InvalidCycle"
    using t2 n by blast
  have "snd (start_cycle (fst ?r) None None ''bogus'' 5 (snd ?r)) = (fst ?r, snd ?r)"
    using t2 a2 by blast
  then have a3: "snd (start_cycle (fst ?r) None None ''bogus'' 5 (snd ?r)) = ?r"
    by (simp only: h)
  show ?thesis using c rt rd a1 a2 a3 by blast
qed

subsection \<open>Phototherapy sessions\<close>

lemma start_session_ok:
  assumes "status pl = CONNECTED" "0 \<le> i" "i \<le> 100"
  shows "start_session pl d i now g =
           (Inr (uuid_str g),
            pl\<lparr>active_sessions := (active_sessions pl)(uuid_str g \<mapsto>
                 \<lparr>session_duration = d, session_intensity = i,
                  session_start_time = now, session_status = ''running''\<rparr>)\<rparr>,
            Suc g)"
  using assms by (simp add: start_session_def uuid4_def)

lemma start_session_failed:
  assumes "\<not> (status pl = CONNECTED \<and> 0 \<le> i \<and> i \<le> 100)"
  shows "snd (start_session pl d i now g) = (pl, g)"
    and "\<exists>e. fst (start_session pl d i now g) = Inl e"
  using assms by (auto simp: start_session_def)

lemma pl_apply_step:
  "(\<exists>i d now. c = Start_session d i now \<and> status pl = CONNECTED \<and> 0 \<le> i \<and> i \<le> 100
      \<and> pl_apply (pl, g) c =
          (pl\<lparr>active_sessions := (active_sessions pl)(uuid_str g \<mapsto>
                 \<lparr>session_duration = d, session_intensity = i,
                  session_start_time = now, session_status = ''running''\<rparr>)\<rparr>, Suc g)
      \<and> returned_ids (pl, g) [c] = {uuid_str g})
   \<or> (returned_ids (pl, g) [c] = {} \<and> g \<le> snd (pl_apply (pl, g) c)
       \<and> dom (active_sessions (fst (pl_apply (pl, g) c))) = dom (active_sessions pl)
       \<and> (\<forall>k s. active_sessions pl k = Some s \<longrightarrow>
             (\<exists>s'. active_sessions (fst (pl_apply (pl, g) c)) k = Some s'
                \<and> session_duration s' = session_duration s
                \<and> session_intensity s' = session_intensity s)))"
proof (cases c)
  case (Start_session d i now)
  show ?thesis
  proof (cases "status pl = CONNECTED \<and> 0 \<le> i \<and> i \<le> 100")
    case True
    then show ?thesis using Start_session by (simp add: start_session_ok)
  next
    case False
    from start_session_failed [OF False, of d now g] Start_session
    show ?thesis by auto
  qed
next
  case (Stop_session sid)
  then show ?thesis by (auto simp: stop_session_def split: option.splits)
qed (auto simp: pl_initialize_def pl_connect_def uuid4_def)

lemma returned_ids_Cons:
  "returned_ids s (c # cs) = returned_ids s [c] \<union> returned_ids (pl_apply s c) cs"
  by (cases c) (auto split: sum.splits)

lemma pl_apply_issued:
  assumes "\<forall>k \<in> dom (active_sessions pl). \<exists>n<g. k = uuid_str n"
  shows "\<forall>k \<in> dom (active_sessions (fst (pl_apply (pl, g) c))).
           \<exists>n < snd (pl_apply (pl, g) c). k = uuid_str n"
proof -
  consider (start) i d now where
      "pl_apply (pl, g) c =
          (pl\<lparr>active_sessions := (active_sessions pl)(uuid_str g \<mapsto>
                 \<lparr>session_duration = d, session_intensity = i,
                  session_start_time = now, session_status = ''running''\<rparr>)\<rparr>, Suc g)"
    | (other) "g \<le> snd (pl_apply (pl, g) c)"
        "dom (active_sessions (fst (pl_apply (pl, g) c))) = dom (active_sessions pl)"
    using pl_apply_step [of c pl g] by blast
  then show ?thesis
  proof cases
    case start
    show ?thesis
    proof
      fix k assume "k \<in> dom (active_sessions (fst (pl_apply (pl, g) c)))"
      then have "k = uuid_str g \<or> k \<in> dom (active_sessions pl)"
        unfolding start by (auto split: if_splits)
      then show "\<exists>n < snd (pl_apply (pl, g) c). k = uuid_str n"
        unfolding start using assms by (auto intro: less_SucI)
    qed
  next
    case other
    show ?thesis
    proof
      fix k assume "k \<in> dom (active_sessions (fst (pl_apply (pl, g) c)))"
      then have "k \<in> dom (active_sessions pl)" unfolding other(2) .
      then obtain n where "n < g" "k = uuid_str n" using assms by blast
      then show "\<exists>n < snd (pl_apply (pl, g) c). k = uuid_str n"
        using other(1) by (intro exI [of _ n]) simp
    qed
  qed
qed

lemma pl_run_issued:
  assumes "\<forall>k \<in> dom (active_sessions pl). \<exists>n<g. k = uuid_str n"
  shows "\<forall>k \<in> dom (active_sessions (fst (pl_run (pl, g) calls))).
           \<exists>n < snd (pl_run (pl, g) calls). k = uuid_str n"
  using assms
proof (induction calls arbitrary: pl g)
  case Nil
  then show ?case by simp
next
  case (Cons c cs)
  obtain pl1 g1 where e: "pl_apply (pl, g) c = (pl1, g1)" by (cases "pl_apply (pl, g) c")
  have "\<forall>k \<in> dom (active_sessions pl1). \<exists>n<g1. k = uuid_str n"
    using pl_apply_issued [OF Cons.prems, of c] e by simp
  from Cons.IH [OF this] e show ?case by simp
qed

lemma pl_run_sessions_dom:
  "dom (active_sessions (fst (pl_run (pl, g) calls)))
     = dom (active_sessions pl) \<union> returned_ids (pl, g) calls"
proof (induction calls arbitrary: pl g)
  case Nil
  show ?case by simp
next
  case (Cons c cs)
  obtain pl1 g1 where e: "pl_apply (pl, g) c = (pl1, g1)" by (cases "pl_apply (pl, g) c")
  have s: "dom (active_sessions pl1) = dom (active_sessions pl) \<union> returned_ids (pl, g) [c]"
    using pl_apply_step [of c pl g] e by auto
  have "dom (active_sessions (fst (pl_run (pl, g) (c # cs))))
          = dom (active_sessions pl1) \<union> returned_ids (pl1, g1) cs"
    using Cons.IH [of pl1 g1] e by simp
  also have "\<dots> = dom (active_sessions pl) \<union> (returned_ids (pl, g) [c] \<union> returned_ids (pl1, g1) cs)"
    unfolding s by (rule Un_assoc)
  also have "\<dots> = dom (active_sessions pl) \<union> returned_ids (pl, g) (c # cs)"
    using returned_ids_Cons [of "(pl, g)" c cs] e by simp
  finally show ?case .
qed

lemma pl_run_keeps_session:
  assumes "active_sessions pl (uuid_str m) = Some s" "m < g"
  shows "\<exists>s'. active_sessions (fst (pl_run (pl, g) calls)) (uuid_str m) = Some s'
           \<and> session_duration s' = session_duration s
           \<and> session_intensity s' = session_intensity s"
  using assms
proof (induction calls arbitrary: pl g s)
  case Nil
  then show ?case by simp
next
  case (Cons c cs)
  obtain pl1 g1 where e: "pl_apply (pl, g) c = (pl1, g1)" by (cases "pl_apply (pl, g) c")
  have "\<exists>s1. active_sessions pl1 (uuid_str m) = Some s1
           \<and> session_duration s1 = session_duration s
           \<and> session_intensity s1 = session_intensity s \<and> m < g1"
  proof -
    consider (start) i d now where
      "pl_apply (pl, g) c =
          (pl\<lparr>active_sessions := (active_sessions pl)(uuid_str g \<mapsto>
                 \<lparr>session_duration = d, session_intensity = i,
                  session_start_time = now, session_status = ''running''\<rparr>)\<rparr>, Suc g)"
    | (other) "g \<le> snd (pl_apply (pl, g) c)"
        "\<forall>k s. active_sessions pl k = Some s \<longrightarrow>
             (\<exists>s'. active_sessions (fst (pl_apply (pl, g) c)) k = Some s'
                \<and> session_duration s' = session_duration s
                \<and> session_intensity s' = session_intensity s)"
      using pl_apply_step [of c pl g] by blast
    then show ?thesis
    proof cases
      case start
      have "uuid_str g \<noteq> uuid_str m" using Cons.prems(2) uuid_str_inj by blast
      then show ?thesis using start e Cons.prems by auto
    next
      case other
      then show ?thesis using e Cons.prems by auto
    qed
  qed
  then obtain s1 where s1: "active_sessions pl1 (uuid_str m) = Some s1"
    "session_duration s1 = session_duration s" "session_intensity s1 = session_intensity s"
    "m < g1" by blast
  from Cons.IH [OF s1(1) s1(4)] s1(2,3) e show ?case by simp
qed

text \<open>
  C6.  \<open>PhototherapyLight.start_session(duration, intensity)\<close> fails with \<open>NotConnected\<close>
  unless the status is \<open>CONNECTED\<close>, and with \<open>OutOfRange\<close> unless
  \<open>0 \<le> intensity \<le> 100\<close>; a failed call leaves the device, and so its session records,
  as they were.  Otherwise, on a light after any history of calls since its
  construction, it returns an identifier that is not a key of the device's session
  records and that no earlier \<open>start_session\<close> of the history returned, and stores
  under it a record with status \<open>running\<close>, leaving the other records alone;
  \<open>get_session\<close> on that identifier yields the duration and intensity passed,
  immediately and after any later calls whatever.  \<open>get_session\<close> fails with \<open>NotFound\<close>
  for every identifier that no earlier \<open>start_session\<close> of the device returned.
\<close>

theorem start_session_contract:
  assumes "(pl, g) = pl_run (PhototherapyLight_init dev loc ct, g0) history"
  shows
  "(status p \<noteq> CONNECTED \<longrightarrow> start_session p d i now n = (Inl NotConnected, p, n))
   \<and> (status p = CONNECTED \<and> \<not> (0 \<le> i \<and> i \<le> 100) \<longrightarrow>
        start_session p d i now n = (Inl OutOfRange, p, n))
   \<and> (status pl = CONNECTED \<and> 0 \<le> i \<and> i \<le> 100 \<longrightarrow>
        (\<exists>sid pl' g'. start_session pl d i now g = (Inr sid, pl', g')
           \<and> sid \<notin> dom (active_sessions pl)
           \<and> sid \<notin> returned_ids (PhototherapyLight_init dev loc ct, g0) history
           \<and> get_session pl' sid =
               Inr \<lparr>session_duration = d, session_intensity = i,
                    session_start_time = now, session_status = ''running''\<rparr>
           \<and> (\<forall>k. k \<noteq> sid \<longrightarrow> active_sessions pl' k = active_sessions pl k)
           \<and> (\<forall>later. \<exists>s. get_session (fst (pl_run (pl', g') later)) sid = Inr s
                    \<and> session_duration s = d \<and> session_intensity s = i)))
   \<and> (sid0 \<notin> returned_ids (PhototherapyLight_init dev loc ct, g0) history \<longrightarrow>
        get_session pl sid0 = Inl NotFound)"
proof -
  let ?init = "PhototherapyLight_init dev loc ct"
  have pl: "pl = fst (pl_run (?init, g0) history)" and g: "g = snd (pl_run (?init, g0) history)"
    using assms by (metis fst_conv, metis snd_conv)
  have empty: "dom (active_sessions ?init) = {}" by (simp add: PhototherapyLight_init_def)
  have keys: "dom (active_sessions pl) = returned_ids (?init, g0) history"
    unfolding pl pl_run_sessions_dom empty by simp
  have issued: "\<forall>k \<in> dom (active_sessions pl). \<exists>n<g. k = uuid_str n"
    unfolding pl g by (rule pl_run_issued) (simp add: empty)
  have fresh: "uuid_str g \<notin> dom (active_sessions pl)"
    using issued by (rule uuid_fresh)
  have nc: "start_session p d i now n = (Inl NotConnected, p, n)" if "status p \<noteq> CONNECTED"
    using that by (simp add: start_session_def)
  have oor: "start_session p d i now n = (Inl OutOfRange, p, n)"
    if "status p = CONNECTED" "\<not> (0 \<le> i \<and> i \<le> 100)"
    using that by (simp add: start_session_def)
  have nf: "get_session pl sid0 = Inl NotFound"
    if "sid0 \<notin> returned_ids (?init, g0) history"
  proof -
    have "sid0 \<notin> dom (active_sessions pl)" using that keys by simp
    then show ?thesis by (auto simp: get_session_def split: option.splits)
  qed
  have ok: "\<exists>sid pl' g'. start_session pl d i now g = (Inr sid, pl', g')
           \<and> sid \<notin> dom (active_sessions pl)
           \<and> sid \<notin> returned_ids (?init, g0) history
           \<and> get_session pl' sid =
               Inr \<lparr>session_duration = d, session_intensity = i,
                    session_start_time = now, session_status = ''running''\<rparr>
           \<and> (\<forall>k. k \<noteq> sid \<longrightarrow> active_sessions pl' k = active_sessions pl k)
           \<and> (\<forall>later. \<exists>s. get_session (fst (pl_run (pl', g') later)) sid = Inr s
                    \<and> session_duration s = d \<and> session_intensity s = i)"
    if c: "status pl = CONNECTED" "0 \<le> i" "i \<le> 100"
  proof -
    let ?s = "\<lparr>session_duration = d, session_intensity = i,
                session_start_time = now, session_status = ''running''\<rparr>"
    let ?pl = "pl\<lparr>active_sessions := (active_sessions pl)(uuid_str g \<mapsto> ?s)\<rparr>"
    have e: "start_session pl d i now g = (Inr (uuid_str g), ?pl, Suc g)"
      using c by (rule start_session_ok)
    have f2: "uuid_str g \<notin> returned_ids (?init, g0) history" using fresh keys by simp
    have gs: "get_session ?pl (uuid_str g) = Inr ?s" by (simp add: get_session_def)
    have o: "\<forall>k. k \<noteq> uuid_str g \<longrightarrow> active_sessions ?pl k = active_sessions pl k" by simp
    have l: "\<exists>s. get_session (fst (pl_run (?pl, Suc g) later)) (uuid_str g) = Inr s
                    \<and> session_duration s = d \<and> session_intensity s = i" for later
    proof -
      have "active_sessions ?pl (uuid_str g) = Some ?s" by simp
      from pl_run_keeps_session [OF this lessI, of later]
      show ?thesis by (auto simp: get_session_def)
    qed
    show ?thesis using e fresh f2 gs o l by blast
  qed
  show ?thesis using nc oor nf ok by blast
qed

theorem start_session_contract_witness:
  "status (fst (pl_run (PhototherapyLight_init ''TEST-PT-001'' ''Test Room'' TCP, 0)
             [Initialize, Connect, Start_session 30 75 0])) = CONNECTED
   \<and> (\<exists>sid pl' g'.
         start_session
           (fst (pl_run (PhototherapyLight_init ''TEST-PT-001'' ''Test Room'' TCP, 0)
                  [Initialize, Connect, Start_session 30 75 0]))
           45 60 7
           (snd (pl_run (PhototherapyLight_init ''TEST-PT-001'' ''Test Room'' TCP, 0)
                  [Initialize, Connect, Start_session 30 75 0]))
           = (Inr sid, pl', g')
         \<and> sid \<notin> returned_ids (PhototherapyLight_init ''TEST-PT-001'' ''Test Room'' TCP, 0)
                   [Initialize, Connect, Start_session 30 75 0]
         \<and> (\<exists>s. get_session
                  (fst (pl_run (pl', g') [Stop_session sid, Start_session 10 10 9])) sid = Inr s
                \<and> session_duration s = 45 \<and> session_intensity s = 60))
   \<and> ''s2'' \<notin> returned_ids (PhototherapyLight_init ''TEST-PT-001'' ''Test Room'' TCP, 0)
                 [Initialize, Connect, Start_session 30 75 0]
   \<and> get_session
       (fst (pl_run (PhototherapyLight_init ''TEST-PT-001'' ''Test Room'' TCP, 0)
              [Initialize, Connect, Start_session 30 75 0])) ''s2'' = Inl NotFound
   \<and> start_session (PhototherapyLight_init ''TEST-PT-001'' ''Test Room'' TCP) 30 75 0 0
       = (Inl NotConnected, PhototherapyLight_init ''TEST-PT-001'' ''Test Room'' TCP, 0)
   \<and> start_session
       (snd (pl_connect (PhototherapyLight_init ''TEST-PT-001'' ''Test Room'' TCP))) 30 101 0 0
       = (Inl OutOfRange,
          snd (pl_connect (PhototherapyLight_init ''TEST-PT-001'' ''Test Room'' TCP)), 0)"
proof -
  let ?init = "PhototherapyLight_init ''TEST-PT-001'' ''Test Room'' TCP"
  let ?h = "[Initialize, Connect, Start_session 30 75 0]"
  let ?r = "pl_run (?init, 0) ?h"
  let ?p = "snd (pl_connect ?init)"
  have h: "(fst ?r, snd ?r) = ?r" by (rule prod.collapse)
  have c: "status (fst ?r) = CONNECTED"
    by (simp add: pl_initialize_def pl_connect_def PhototherapyLight_init_def start_session_def
          uuid4_def)
  have d: "status ?init \<noteq> CONNECTED" by (simp add: PhototherapyLight_init_def)
  have c2: "status ?p = CONNECTED" by (simp add: pl_connect_def)
  have r: "''s2'' \<notin> returned_ids (?init, 0) ?h"
    by (simp add: pl_initialize_def pl_connect_def PhototherapyLight_init_def start_session_def
          uuid4_def uuid_str_def str_nat.simps)
  have n: "(0::int) \<le> 60 \<and> (60::int) \<le> 100" by simp
  have n': "\<not> ((0::int) \<le> 101 \<and> (101::int) \<le> 100)" by simp
  note t1 = start_session_contract [OF h, where p = ?init and d = 45 and i = 60 and now = 7
              and n = 0 and ?sid0.0 = "''s2''"]
  note t2 = start_session_contract [OF h, where p = ?init and d = 30 and i = 75 and now = 0
              and n = 0 and ?sid0.0 = "''s2''"]
  note t3 = start_session_contract [OF h, where p = ?p and d = 30 and i = 101 and now = 0
              and n = 0 and ?sid0.0 = "''s2''"]
  have a1: "\<exists>sid pl' g'.
         start_session (fst ?r) 45 60 7 (snd ?r) = (Inr sid, pl', g')
         \<and> sid \<notin> returned_ids (?init, 0) ?h
         \<and> (\<exists>s. get_session
                  (fst (pl_run (pl', g') [Stop_session sid, Start_session 10 10 9])) sid = Inr s
                \<and> session_duration s = 45 \<and> session_intensity s = 60)"
    using t1 c n by blast
  have a2: "get_session (fst ?r) ''s2'' = Inl NotFound"
    using t1 r by blast
  have a3: "start_session ?init 30 75 0 0 = (Inl NotConnected, ?init, 0)"
    using t2 d by blast
  have a4: "start_session ?p 30 101 0 0 = (Inl OutOfRange, ?p, 0)"
    using t3 c2 n' by blast
  show ?thesis using c a1 r a2 a3 a4 by blast
qed

subsection \<open>Parameters of the surgical light\<close>

text \<open>
  C7.  The claim has \<open>SurgicalLight.set_parameter\<close> return false, and change nothing, for a
  value that is out of range or of the wrong type.  For \<open>camera_active\<close> the code converts
  with \<open>bool(value)\<close> and never compares with the allowed values \<open>(False, True)\<close> that
  \<open>_supported_parameters\<close> declares: \<open>set_parameter('camera_active', 150)\<close> returns true and
  switches the camera on.
\<close>

theorem set_parameter_camera_active_unchecked:
  "set_parameter parse (SurgicalLight_init ''SL-1'' ETHERNET) ''camera_active'' (PyInt 150)
     = (Inr True, (SurgicalLight_init ''SL-1'' ETHERNET)\<lparr>camera_active := True\<rparr>)
   \<and> camera_active (SurgicalLight_init ''SL-1'' ETHERNET) = False"
  by (simp add: set_parameter_def supported_parameters_def py_bool_def SurgicalLight_init_def)

section \<open>Device service: verified properties\<close>

text \<open>
  C8.  The claim has \<open>DeviceService.get_device_status\<close> return status and parameters for
  every device in the session store, without raising.  With a connected \<open>HeatingBed\<close>
  stored under \<open>'1'\<close>, \<open>get_device_status(1)\<close> calls \<open>get_status\<close>, which only
  \<open>SurgicalLight\<close> overrides, and the \<open>NotImplementedError\<close> of \<open>BaseDevice.get_status\<close>
  leaves the call.
\<close>

theorem get_device_status_heating_bed_raises:
  "get_device_status
     \<lparr>db = Map.empty,
      active_devices = [Str_key ''1'' \<mapsto> snd (connect (HB (HeatingBed_init ''1'' ''Ward 3'' SERIAL 0)))]\<rparr>
     (Int_key 1) = Inl NotImplementedError"
  by (simp add: get_device_status_def str_def str_nat.simps)

text \<open>
  For a \<open>SurgicalLight\<close> the two calls succeed and the read of \<open>last_update\<close> raises, so a
  call for a device in the store raises for every class; for an id that is not in the
  store the call returns \<open>None\<close>.
\<close>

lemma get_device_status_raises_when_present:
  assumes "active_devices ds (Str_key (py_str dev_id)) \<noteq> None"
  shows "\<exists>e. get_device_status ds dev_id = Inl e"
  using assms
  by (auto simp: get_device_status_def last_update_def split: option.splits sum.splits)

lemma get_device_status_absent:
  assumes "active_devices ds (Str_key (py_str dev_id)) = None"
  shows "get_device_status ds dev_id = Inr None"
  using assms by (simp add: get_device_status_def)

text \<open>
  The factory call of \<open>connect_device\<close> is made on the class, with the model column of
  the record as receiver, and raises \<open>AttributeError\<close> whatever the arguments.  The
  handler of the \<open>try\<close> returns false, so no call of \<open>connect_device\<close> constructs,
  stores or starts anything.
\<close>

lemma create_device_on_class:
  "create_device (model_object m) device_type args = Inl AttributeError"
  by (simp add: create_device_def model_object_def split: option.splits)

lemma connect_device_returns_false:
  "connect_device ds dev_id ct = (False, ds, [])"
  by (simp add: connect_device_def create_device_on_class split: option.splits)

text \<open>
  C4.  When the device is already in the session store, whether \<open>device_id\<close> itself is
  a key of \<open>_active_devices\<close> or the device is stored under \<open>str(device_id)\<close>, as
  \<open>connect_device\<close> stores it, \<open>connect_device\<close> returns false and does nothing else: no
  device instance is constructed, the store (and the directory) is unchanged and no
  monitoring is started.
\<close>

theorem connect_device_already_present:
  assumes "active_devices ds dev_id \<noteq> None \<or> active_devices ds (Str_key (py_str dev_id)) \<noteq> None"
  shows "connect_device ds dev_id ct = (False, ds, [])"
  by (rule connect_device_returns_false)

theorem connect_device_already_present_witness:
  "active_devices
     \<lparr>db = [Int_key 7 \<mapsto> sample_record\<lparr>dr_status := 3\<rparr>],
      active_devices =
        [Str_key ''7'' \<mapsto> SL ((SurgicalLight_init ''7'' ETHERNET)\<lparr>status := CONNECTED\<rparr>)]\<rparr>
     (Str_key (py_str (Int_key 7))) \<noteq> None
   \<and> connect_device
       \<lparr>db = [Int_key 7 \<mapsto> sample_record\<lparr>dr_status := 3\<rparr>],
        active_devices =
          [Str_key ''7'' \<mapsto> SL ((SurgicalLight_init ''7'' ETHERNET)\<lparr>status := CONNECTED\<rparr>)]\<rparr>
       (Int_key 7) ETHERNET
     = (False,
        \<lparr>db = [Int_key 7 \<mapsto> sample_record\<lparr>dr_status := 3\<rparr>],
         active_devices =
           [Str_key ''7'' \<mapsto> SL ((SurgicalLight_init ''7'' ETHERNET)\<lparr>status := CONNECTED\<rparr>)]\<rparr>,
        [])
   \<and> active_devices
       \<lparr>db = [Str_key ''7'' \<mapsto> sample_record\<lparr>dr_status := 3\<rparr>],
        active_devices =
          [Str_key ''7'' \<mapsto> SL ((SurgicalLight_init ''7'' ETHERNET)\<lparr>status := CONNECTED\<rparr>)]\<rparr>
       (Str_key ''7'') \<noteq> None
   \<and> connect_device
       \<lparr>db = [Str_key ''7'' \<mapsto> sample_record\<lparr>dr_status := 3\<rparr>],
        active_devices =
          [Str_key ''7'' \<mapsto> SL ((SurgicalLight_init ''7'' ETHERNET)\<lparr>status := CONNECTED\<rparr>)]\<rparr>
       (Str_key ''7'') ETHERNET
     = (False,
        \<lparr>db = [Str_key ''7'' \<mapsto> sample_record\<lparr>dr_status := 3\<rparr>],
         active_devices =
           [Str_key ''7'' \<mapsto> SL ((SurgicalLight_init ''7'' ETHERNET)\<lparr>status := CONNECTED\<rparr>)]\<rparr>,
        [])"
proof -
  let ?dev = "SL ((SurgicalLight_init ''7'' ETHERNET)\<lparr>status := CONNECTED\<rparr>)"
  let ?ds = "\<lparr>db = [Int_key 7 \<mapsto> sample_record\<lparr>dr_status := 3\<rparr>],
              active_devices = [Str_key ''7'' \<mapsto> ?dev]\<rparr>"
  let ?ds2 = "\<lparr>db = [Str_key ''7'' \<mapsto> sample_record\<lparr>dr_status := 3\<rparr>],
              active_devices = [Str_key ''7'' \<mapsto> ?dev]\<rparr>"
  have h: "active_devices ?ds (Str_key (py_str (Int_key 7))) \<noteq> None"
    by (simp add: str_def str_nat.simps)
  have h2: "active_devices ?ds2 (Str_key ''7'') \<noteq> None" by simp
  from h have p: "active_devices ?ds (Int_key 7) \<noteq> None
                  \<or> active_devices ?ds (Str_key (py_str (Int_key 7))) \<noteq> None" ..
  from h2 have p2: "active_devices ?ds2 (Str_key ''7'') \<noteq> None
                  \<or> active_devices ?ds2 (Str_key (py_str (Str_key ''7''))) \<noteq> None" ..
  show ?thesis
    using h h2 connect_device_already_present [OF p, of ETHERNET]
      connect_device_already_present [OF p2, of ETHERNET]
    by blast
qed

section \<open>Monitor loops: verified properties\<close>

subsection \<open>One iteration of the heating-bed monitor, case by case\<close>

lemma five_minutes_pos: "\<not> (0::int) > five_minutes"
  by (simp add: five_minutes_def timedelta_minutes_def)

lemma temps_of_deviation:
  assumes "deviation_observed p"
  obtains params c t where "poll_status p = Status_parameters params"
    "hb_current_temperature params = Some c" "hb_target_temperature params = Some t"
    "\<bar>c - t\<bar> > 1"
  using assms
  by (auto simp: deviation_observed_def split: poll_status.splits option.splits)

lemma iteration_arm:
  assumes "deviation_observed p" "map_of (temperature_alerts m) (str d) = None"
  shows "monitor_temperature_iteration d m p =
           m\<lparr>temperature_alerts :=
               AList.update (str d) \<lparr>first_detected = utcnow p, alert_sent = False\<rparr>
                 (temperature_alerts m)\<rparr>"
proof -
  from assms(1) obtain params c t where
    "poll_status p = Status_parameters params"
    "hb_current_temperature params = Some c" "hb_target_temperature params = Some t"
    "\<bar>c - t\<bar> > 1"
    by (rule temps_of_deviation)
  then show ?thesis
    using assms(2) five_minutes_pos
    by (simp add: monitor_temperature_iteration_def update_conv')
qed

lemma iteration_wait:
  assumes "deviation_observed p" "map_of (temperature_alerts m) (str d) = Some a"
    "alert_sent a \<or> \<not> utcnow p - first_detected a > five_minutes"
  shows "monitor_temperature_iteration d m p = m"
proof -
  from assms(1) obtain params c t where
    "poll_status p = Status_parameters params"
    "hb_current_temperature params = Some c" "hb_target_temperature params = Some t"
    "\<bar>c - t\<bar> > 1"
    by (rule temps_of_deviation)
  then show ?thesis
    using assms(2,3)
    by (auto simp: monitor_temperature_iteration_def)
qed

lemma iteration_fire:
  assumes "deviation_observed p" "map_of (temperature_alerts m) (str d) = Some a"
    "\<not> alert_sent a" "utcnow p - first_detected a > five_minutes"
  shows "monitor_temperature_iteration d m p =
           m\<lparr>temperature_alerts := AList.update (str d) (a\<lparr>alert_sent := True\<rparr>) (temperature_alerts m),
             recorded_alerts := recorded_alerts m @ alert_of d p\<rparr>"
proof -
  from assms(1) obtain params c t where
    "poll_status p = Status_parameters params"
    "hb_current_temperature params = Some c" "hb_target_temperature params = Some t"
    "\<bar>c - t\<bar> > 1"
    by (rule temps_of_deviation)
  then show ?thesis
    using assms(2,3,4)
    by (simp add: monitor_temperature_iteration_def alert_of_def handle_temperature_alert_def
          record_device_alert_def split: option.splits)
qed

lemma iteration_clear:
  assumes "deviation_cleared p"
  shows "monitor_temperature_iteration d m p =
           m\<lparr>temperature_alerts := AList.delete (str d) (temperature_alerts m)\<rparr>"
proof -
  from assms obtain params c t where
    "poll_status p = Status_parameters params"
    "hb_current_temperature params = Some c" "hb_target_temperature params = Some t"
    "\<not> \<bar>c - t\<bar> > 1"
    by (auto simp: deviation_cleared_def split: poll_status.splits option.splits)
  moreover have "AList.delete (str d) (temperature_alerts m) = temperature_alerts m"
    if "map_of (temperature_alerts m) (str d) = None"
    using that by (simp add: map_of_eq_None_iff)
  ultimately show ?thesis
    by (auto simp: monitor_temperature_iteration_def)
qed

lemma iteration_idle:
  assumes "\<not> deviation_observed p" "\<not> deviation_cleared p"
  shows "monitor_temperature_iteration d m p = m"
  using assms
  by (auto simp: monitor_temperature_iteration_def deviation_observed_def deviation_cleared_def
        split: poll_status.splits option.splits)

lemma monitor_temperature_append:
  "monitor_temperature d m (xs @ ys) = monitor_temperature d (monitor_temperature d m xs) ys"
  by (induction xs arbitrary: m) auto

lemma run_sent:
  assumes "\<forall>p \<in> set ps. deviation_observed p"
    "map_of (temperature_alerts m) (str d) = Some a" "alert_sent a"
  shows "monitor_temperature d m ps = m"
  using assms
proof (induction ps)
  case Nil
  show ?case by simp
next
  case (Cons p ps)
  have "monitor_temperature_iteration d m p = m"
    using Cons.prems by (intro iteration_wait [where a = a]) auto
  then show ?case using Cons by simp
qed

lemma run_armed:
  assumes "\<forall>p \<in> set ps. deviation_observed p"
    "map_of (temperature_alerts m) (str d) = Some a" "\<not> alert_sent a"
  shows "recorded_alerts (monitor_temperature d m ps)
           = recorded_alerts m @ debounced_alerts d (first_detected a) ps
         \<and> map_of (temperature_alerts (monitor_temperature d m ps)) (str d) \<noteq> None"
  using assms
proof (induction ps arbitrary: m)
  case Nil
  then show ?case by (simp add: debounced_alerts_def)
next
  case (Cons p ps)
  have dev: "deviation_observed p" and rest: "\<forall>p \<in> set ps. deviation_observed p"
    using Cons.prems(1) by auto
  show ?case
  proof (cases "utcnow p - first_detected a > five_minutes")
    case True
    let ?m = "m\<lparr>temperature_alerts := AList.update (str d) (a\<lparr>alert_sent := True\<rparr>) (temperature_alerts m),
             recorded_alerts := recorded_alerts m @ alert_of d p\<rparr>"
    have step: "monitor_temperature_iteration d m p = ?m"
      using iteration_fire [OF dev Cons.prems(2,3) True] .
    have e: "map_of (temperature_alerts ?m) (str d) = Some (a\<lparr>alert_sent := True\<rparr>)"
      by (simp add: update_conv')
    have "monitor_temperature d ?m ps = ?m"
      using run_sent [OF rest e] by simp
    then show ?thesis using step e True by (simp add: debounced_alerts_def)
  next
    case False
    have step: "monitor_temperature_iteration d m p = m"
      using iteration_wait [OF dev Cons.prems(2)] False by simp
    from Cons.IH [OF rest Cons.prems(2,3)] step False
    show ?thesis by (simp add: debounced_alerts_def)
  qed
qed

lemma run_onset:
  assumes "\<forall>p \<in> set ps. deviation_observed p"
    "map_of (temperature_alerts m) (str d) = None"
  shows "recorded_alerts (monitor_temperature d m ps) = recorded_alerts m @ onset_alerts d ps"
proof (cases ps)
  case Nil
  then show ?thesis by (simp add: onset_alerts_def)
next
  case (Cons p0 rest)
  let ?a = "\<lparr>first_detected = utcnow p0, alert_sent = False\<rparr>"
  let ?m = "m\<lparr>temperature_alerts := AList.update (str d) ?a (temperature_alerts m)\<rparr>"
  have dev: "deviation_observed p0" and r: "\<forall>p \<in> set rest. deviation_observed p"
    using assms(1) Cons by auto
  have step: "monitor_temperature_iteration d m p0 = ?m"
    using iteration_arm [OF dev assms(2)] .
  have e: "map_of (temperature_alerts ?m) (str d) = Some ?a" by (simp add: update_conv')
  have "recorded_alerts (monitor_temperature d ?m rest)
          = recorded_alerts ?m @ debounced_alerts d (first_detected ?a) rest"
    using run_armed [OF r e] by simp
  moreover have "debounced_alerts d (utcnow p0) (p0 # rest) = debounced_alerts d (utcnow p0) rest"
    using five_minutes_pos by (simp add: debounced_alerts_def)
  ultimately show ?thesis using Cons step by (simp add: onset_alerts_def)
qed

lemma run_entry_after:
  assumes "deviation_cleared q"
  shows "map_of (temperature_alerts (monitor_temperature_iteration d m q)) (str d) = None"
  by (simp add: iteration_clear [OF assms] delete_conv')

lemma length_alert_of: "length (alert_of d p) \<le> Suc 0"
  by (simp add: alert_of_def handle_temperature_alert_def record_device_alert_def
        split: poll_status.splits option.splits)

lemma length_debounced: "length (debounced_alerts d since ps) \<le> Suc 0"
  by (simp add: debounced_alerts_def length_alert_of split: option.splits)

lemma length_onset: "length (onset_alerts d ps) \<le> Suc 0"
  by (simp add: onset_alerts_def length_debounced split: list.splits)

lemma alert_of_found:
  assumes "deviation_observed p" "device_by_id p \<noteq> None"
  shows "length (alert_of d p) = Suc 0"
  using assms
  by (auto simp: deviation_observed_def alert_of_def handle_temperature_alert_def
        record_device_alert_def split: poll_status.splits option.splits)

lemma onset_none:
  assumes "\<forall>p \<in> set (p0 # ps). utcnow p - utcnow p0 \<le> five_minutes"
  shows "onset_alerts d (p0 # ps) = []"
proof -
  have "find (\<lambda>p. utcnow p - utcnow p0 > five_minutes) (p0 # ps) = None"
    using assms unfolding find_None_iff by (metis not_less)
  then show ?thesis by (simp add: onset_alerts_def debounced_alerts_def del: find.simps)
qed

lemma onset_one:
  assumes "\<exists>p \<in> set (p0 # ps). utcnow p - utcnow p0 > five_minutes"
    "\<forall>p \<in> set (p0 # ps). deviation_observed p \<and> device_by_id p \<noteq> None"
  shows "length (onset_alerts d (p0 # ps)) = Suc 0"
proof -
  obtain p where f: "find (\<lambda>p. utcnow p - utcnow p0 > five_minutes) (p0 # ps) = Some p"
    using assms(1) by (cases "find (\<lambda>p. utcnow p - utcnow p0 > five_minutes) (p0 # ps)")
      (auto simp: find_None_iff simp del: find.simps)
  then have "p \<in> set (p0 # ps)" unfolding find_Some_iff by (metis nth_mem)
  then have "length (alert_of d p) = Suc 0" using assms(2) alert_of_found by blast
  then show ?thesis using f by (simp add: onset_alerts_def debounced_alerts_def del: find.simps)
qed

lemma deviating_poll_observed: "deviation_observed (deviating_poll n)"
  by (simp add: deviation_observed_def deviating_poll_def)

lemma normal_poll_cleared: "deviation_cleared (normal_poll n)"
  by (simp add: deviation_cleared_def normal_poll_def)

subsection \<open>Debounce of the temperature-deviation alert\<close>

text \<open>
  C1, as stated, asks for an alert once the deviation has been sustained for at least
  five minutes.  The loop compares with \<open>>\<close>, as its comment says (\<open>more than 5
  minutes\<close>): a deviation polled every 30 seconds from 0 to 300 seconds, and gone at
  330 seconds, has been sustained for five minutes and records no alert.
\<close>

theorem heating_bed_five_minutes_counterexample:
  "utcnow (deviating_poll 300) - utcnow (deviating_poll 0) \<ge> five_minutes
   \<and> recorded_alerts (monitor_temperature 1 HeatingBedManager_init
        [deviating_poll 0, deviating_poll 30, deviating_poll 60, deviating_poll 90,
         deviating_poll 120, deviating_poll 150, deviating_poll 180, deviating_poll 210,
         deviating_poll 240, deviating_poll 270, deviating_poll 300, normal_poll 330]) = []"
  by (simp add: monitor_temperature_iteration_def deviating_poll_def normal_poll_def
        HeatingBedManager_init_def seconds_def five_minutes_def timedelta_minutes_def
        str_def str_nat.simps)

text \<open>
  C1, amended.  Take a run of the heating-bed monitor that starts with no tracked entry
  for the device and consists of polls \<open>ps1\<close> that all show a deviation above 1.0, a
  poll \<open>q\<close> that shows the deviation gone, and polls \<open>ps2\<close> that all show it again.  The
  alerts recorded are those of the onset \<open>ps1\<close> followed by those of the onset \<open>ps2\<close>,
  and \<open>q\<close> removes the tracked entry.  Each onset is judged from its own first poll:
  it records nothing while no poll is more than five minutes past the first, never more
  than one alert, and exactly one as soon as a poll is more than five minutes past the
  first (the device's record being found when the handler looks it up).
\<close>

theorem heating_bed_debounce:
  assumes "\<forall>p \<in> set ps1. deviation_observed p"
    and "deviation_cleared q"
    and "\<forall>p \<in> set ps2. deviation_observed p"
    and "map_of (temperature_alerts m) (str d) = None"
  shows
    "recorded_alerts (monitor_temperature d m (ps1 @ q # ps2))
       = recorded_alerts m @ onset_alerts d ps1 @ onset_alerts d ps2
     \<and> map_of (temperature_alerts (monitor_temperature d m (ps1 @ [q]))) (str d) = None
     \<and> (\<forall>ps. length (onset_alerts d ps) \<le> 1)
     \<and> (\<forall>p0 ps. (\<forall>p \<in> set (p0 # ps). utcnow p - utcnow p0 \<le> five_minutes)
            \<longrightarrow> onset_alerts d (p0 # ps) = [])
     \<and> (\<forall>p0 ps. (\<exists>p \<in> set (p0 # ps). utcnow p - utcnow p0 > five_minutes)
              \<and> (\<forall>p \<in> set (p0 # ps). deviation_observed p \<and> device_by_id p \<noteq> None)
            \<longrightarrow> length (onset_alerts d (p0 # ps)) = 1)"
proof -
  let ?m1 = "monitor_temperature d m ps1"
  let ?m2 = "monitor_temperature_iteration d ?m1 q"
  have r1: "recorded_alerts ?m1 = recorded_alerts m @ onset_alerts d ps1"
    using run_onset [OF assms(1,4)] .
  have c: "map_of (temperature_alerts ?m2) (str d) = None"
    using run_entry_after [OF assms(2)] .
  have r2: "recorded_alerts ?m2 = recorded_alerts ?m1"
    by (simp add: iteration_clear [OF assms(2)])
  have r3: "recorded_alerts (monitor_temperature d ?m2 ps2) = recorded_alerts ?m2 @ onset_alerts d ps2"
    using run_onset [OF assms(3) c] .
  have run: "monitor_temperature d m (ps1 @ q # ps2) = monitor_temperature d ?m2 ps2"
    by (simp add: monitor_temperature_append)
  have a: "recorded_alerts (monitor_temperature d m (ps1 @ q # ps2))
       = recorded_alerts m @ onset_alerts d ps1 @ onset_alerts d ps2"
    using run r1 r2 r3 by simp
  have b: "map_of (temperature_alerts (monitor_temperature d m (ps1 @ [q]))) (str d) = None"
    using c by (simp add: monitor_temperature_append)
  have l: "\<forall>ps. length (onset_alerts d ps) \<le> 1"
    using length_onset by simp
  have n: "\<forall>p0 ps. (\<forall>p \<in> set (p0 # ps). utcnow p - utcnow p0 \<le> five_minutes)
            \<longrightarrow> onset_alerts d (p0 # ps) = []"
    using onset_none by blast
  have o: "\<forall>p0 ps. (\<exists>p \<in> set (p0 # ps). utcnow p - utcnow p0 > five_minutes)
              \<and> (\<forall>p \<in> set (p0 # ps). deviation_observed p \<and> device_by_id p \<noteq> None)
            \<longrightarrow> length (onset_alerts d (p0 # ps)) = 1"
    using onset_one by (metis One_nat_def)
  show ?thesis using a b l n o by blast
qed

theorem heating_bed_debounce_witness:
  "deviation_observed (deviating_poll 0) \<and> deviation_observed (deviating_poll 300)
   \<and> deviation_observed (deviating_poll 330)
   \<and> deviation_cleared (normal_poll 360)
   \<and> deviation_observed (deviating_poll 390) \<and> deviation_observed (deviating_poll 690)
   \<and> map_of (temperature_alerts HeatingBedManager_init) (str 1) = None
   \<and> map (\<lambda>a. (ar_severity a, ar_timestamp a))
        (recorded_alerts (monitor_temperature 1 HeatingBedManager_init
          ([deviating_poll 0, deviating_poll 300, deviating_poll 330]
             @ normal_poll 360 # [deviating_poll 390, deviating_poll 690])))
       = [(Some ''medium'', seconds 330)]"
proof -
  have h1: "\<forall>p \<in> set [deviating_poll 0, deviating_poll 300, deviating_poll 330]. deviation_observed p"
    by (simp add: deviating_poll_observed)
  have h2: "deviation_cleared (normal_poll 360)" by (rule normal_poll_cleared)
  have h3: "\<forall>p \<in> set [deviating_poll 390, deviating_poll 690]. deviation_observed p"
    by (simp add: deviating_poll_observed)
  have h4: "map_of (temperature_alerts HeatingBedManager_init) (str 1) = None"
    by (simp add: HeatingBedManager_init_def)
  have e1: "onset_alerts 1 [deviating_poll 0, deviating_poll 300, deviating_poll 330]
              = alert_of 1 (deviating_poll 330)"
    by (simp add: onset_alerts_def debounced_alerts_def deviating_poll_def seconds_def
          five_minutes_def timedelta_minutes_def)
  have e2: "onset_alerts 1 [deviating_poll 390, deviating_poll 690] = []"
    by (simp add: onset_alerts_def debounced_alerts_def deviating_poll_def seconds_def
          five_minutes_def timedelta_minutes_def)
  have e3: "map (\<lambda>a. (ar_severity a, ar_timestamp a)) (alert_of 1 (deviating_poll 330))
              = [(Some ''medium'', seconds 330)]"
    by (simp add: alert_of_def deviating_poll_def handle_temperature_alert_def
          record_device_alert_def)
  have e0: "recorded_alerts HeatingBedManager_init = []"
    by (simp add: HeatingBedManager_init_def)
  from heating_bed_debounce [OF h1 h2 h3 h4]
  have "recorded_alerts (monitor_temperature 1 HeatingBedManager_init
          ([deviating_poll 0, deviating_poll 300, deviating_poll 330]
             @ normal_poll 360 # [deviating_poll 390, deviating_poll 690]))
        = alert_of 1 (deviating_poll 330)"
    by (simp only: e0 e1 e2 append_Nil append_Nil2)
  then show ?thesis
    using h2 h4 e3 deviating_poll_observed by (simp only:)
qed

subsection \<open>The sterilizer's deviation rule and missing readings\<close>

lemma not_all_truthy:
  assumes "None \<in> set [a, b, c, e] \<or> Some 0 \<in> set [a, b, c, e]"
  shows "\<not> (truthy a \<and> truthy b \<and> truthy c \<and> truthy e)"
  using assms by (auto simp: truthy_def)

text \<open>
  C10.  In an iteration of the sterilizer monitor the deviation rule is evaluated only
  when current temperature, target temperature, current pressure and target pressure
  are all present and non-zero: if any of the four is missing or zero (a target
  pressure of 0, say), the iteration records no alert, however large the other
  deviations are.
\<close>

theorem cycle_rule_needs_all_readings:
  assumes "None \<in> set (cycle_readings p) \<or> Some 0 \<in> set (cycle_readings p)"
  shows "monitor_cycle_iteration d alog p = alog"
proof (cases "poll_status p")
  case (Status_parameters params)
  show ?thesis
  proof (cases "st_cycle_info params")
    case None
    then show ?thesis
      using Status_parameters
      by (simp add: monitor_cycle_iteration_def empty_cycle_info_def truthy_def)
  next
    case (Some info)
    have "\<not> (truthy (ci_current_temperature info) \<and> truthy (ci_target_temperature info)
             \<and> truthy (ci_current_pressure info) \<and> truthy (ci_target_pressure info))"
      using assms Status_parameters Some
      by (intro not_all_truthy) (simp add: cycle_readings_def)
    then have c: "(truthy (ci_current_temperature info) \<and> truthy (ci_target_temperature info)
             \<and> truthy (ci_current_pressure info) \<and> truthy (ci_target_pressure info)) = False"
      by (simp only: simp_thms)
    show ?thesis
      by (simp add: monitor_cycle_iteration_def Status_parameters Some c)
  qed
qed (simp_all add: monitor_cycle_iteration_def)

theorem cycle_rule_needs_all_readings_witness:
  "cycle_readings (cycle_poll 200 134 5 0) = [Some 200, Some 134, Some 5, Some 0]
   \<and> monitor_cycle_iteration 1 [] (cycle_poll 200 134 5 0) = []
   \<and> length (monitor_cycle_iteration 1 [] (cycle_poll 200 134 5 (21 / 10))) = 1"
proof -
  have r: "cycle_readings (cycle_poll 200 134 5 0) = [Some 200, Some 134, Some 5, Some 0]"
    by (simp add: cycle_readings_def cycle_poll_def)
  then have h: "None \<in> set (cycle_readings (cycle_poll 200 134 5 0))
                 \<or> Some 0 \<in> set (cycle_readings (cycle_poll 200 134 5 0))"
    by simp
  have e: "length (monitor_cycle_iteration 1 [] (cycle_poll 200 134 5 (21 / 10))) = 1"
    by (simp add: monitor_cycle_iteration_def cycle_poll_def truthy_def handle_cycle_alert_def
          record_device_alert_def)
  show ?thesis using r e cycle_rule_needs_all_readings [OF h, of 1 "[]"] by (simp only:)
qed

subsection \<open>Alerts per onset, by device kind\<close>















subsection \<open>The table of tracked temperature alerts\<close>

lemma poll_cases:
  obtains (observed) "deviation_observed p"
  | (cleared) "deviation_cleared p"
  | (idle) "\<not> deviation_observed p" "\<not> deviation_cleared p"
  by blast

lemma iteration_table:
  "temperature_alerts (monitor_temperature_iteration d m p) = temperature_alerts m
   \<or> (map_of (temperature_alerts m) (str d) = None \<and> deviation_observed p
       \<and> temperature_alerts (monitor_temperature_iteration d m p)
           = AList.update (str d) \<lparr>first_detected = utcnow p, alert_sent = False\<rparr> (temperature_alerts m))
   \<or> (\<exists>a. map_of (temperature_alerts m) (str d) = Some a
       \<and> temperature_alerts (monitor_temperature_iteration d m p)
           = AList.update (str d) (a\<lparr>alert_sent := True\<rparr>) (temperature_alerts m))
   \<or> temperature_alerts (monitor_temperature_iteration d m p)
        = AList.delete (str d) (temperature_alerts m)"
proof (cases p rule: poll_cases)
  case observed
  show ?thesis
  proof (cases "map_of (temperature_alerts m) (str d)")
    case None
    then show ?thesis using iteration_arm [OF observed None] observed by simp
  next
    case (Some a)
    show ?thesis
    proof (cases "alert_sent a \<or> \<not> utcnow p - first_detected a > five_minutes")
      case True
      then show ?thesis using iteration_wait [OF observed Some] by simp
    next
      case False
      then have "\<not> alert_sent a" "utcnow p - first_detected a > five_minutes" by auto
      from iteration_fire [OF observed Some this] Some show ?thesis by simp
    qed
  qed
next
  case cleared
  then show ?thesis by (simp add: iteration_clear)
next
  case idle
  then show ?thesis by (simp add: iteration_idle)
qed

lemma iteration_tasks:
  "monitoring_tasks (monitor_temperature_iteration d m p) = monitoring_tasks m"
  by (simp add: monitor_temperature_iteration_def Let_def
        split: poll_status.splits option.splits)

lemma keys_delete: "fst ` set (AList.delete k al) = fst ` set al - {k}"
  by (auto simp: AList.delete_eq)

lemma iteration_keys:
  "fst ` set (temperature_alerts (monitor_temperature_iteration d m p))
     \<subseteq> insert (str d) (fst ` set (temperature_alerts m))"
proof -
  let ?al = "temperature_alerts m" and ?al' = "temperature_alerts (monitor_temperature_iteration d m p)"
  consider (same) "?al' = ?al"
    | (upd) v where "?al' = AList.update (str d) v ?al"
    | (del) "?al' = AList.delete (str d) ?al"
    using iteration_table [of d m p] by blast
  then show ?thesis
  proof cases
    case same
    then show ?thesis by (simp only:) blast
  next
    case upd
    have "fst ` set (AList.update (str d) v ?al) = {str d} \<union> fst ` set ?al"
      by (rule dom_update)
    then show ?thesis using upd by (simp only:) blast
  next
    case del
    have "fst ` set (AList.delete (str d) ?al) = fst ` set ?al - {str d}"
      by (rule keys_delete)
    then show ?thesis using del by (simp only:) blast
  qed
qed

lemma iteration_distinct:
  assumes "distinct (map fst (temperature_alerts m))"
  shows "distinct (map fst (temperature_alerts (monitor_temperature_iteration d m p)))"
proof -
  let ?al = "temperature_alerts m" and ?al' = "temperature_alerts (monitor_temperature_iteration d m p)"
  consider (same) "?al' = ?al"
    | (upd) v where "?al' = AList.update (str d) v ?al"
    | (del) "?al' = AList.delete (str d) ?al"
    using iteration_table [of d m p] by blast
  then show ?thesis
  proof cases
    case same
    then show ?thesis using assms by (simp only:)
  next
    case upd
    then show ?thesis using distinct_update [OF assms, of "str d" v] by (simp only:)
  next
    case del
    then show ?thesis using distinct_delete [OF assms, of "str d"] by (simp only:)
  qed
qed

lemma iteration_other_keys:
  assumes "k \<noteq> str d"
  shows "map_of (temperature_alerts (monitor_temperature_iteration d m p)) k
           = map_of (temperature_alerts m) k"
proof -
  let ?al = "temperature_alerts m" and ?al' = "temperature_alerts (monitor_temperature_iteration d m p)"
  consider (same) "?al' = ?al"
    | (upd) v where "?al' = AList.update (str d) v ?al"
    | (del) "?al' = AList.delete (str d) ?al"
    using iteration_table [of d m p] by blast
  then show ?thesis
  proof cases
    case same
    then show ?thesis by (simp only:)
  next
    case upd
    then show ?thesis using assms by (simp add: update_conv')
  next
    case del
    then show ?thesis using assms by (simp add: delete_conv')
  qed
qed

lemma iteration_new_entry:
  assumes "map_of (temperature_alerts m) k = None"
    "map_of (temperature_alerts (monitor_temperature_iteration d m p)) k \<noteq> None"
  shows "k = str d \<and> deviation_observed p
         \<and> map_of (temperature_alerts (monitor_temperature_iteration d m p)) k
             = Some \<lparr>first_detected = utcnow p, alert_sent = False\<rparr>"
proof -
  let ?al = "temperature_alerts m" and ?al' = "temperature_alerts (monitor_temperature_iteration d m p)"
  have k: "k = str d"
  proof (rule ccontr)
    assume "k \<noteq> str d"
    from iteration_other_keys [OF this, of m p] assms show False by simp
  qed
  consider (same) "?al' = ?al"
    | (arm) "deviation_observed p"
        "?al' = AList.update (str d) \<lparr>first_detected = utcnow p, alert_sent = False\<rparr> ?al"
    | (fire) a where "map_of ?al (str d) = Some a"
    | (del) "?al' = AList.delete (str d) ?al"
    using iteration_table [of d m p] by blast
  then show ?thesis
  proof cases
    case same
    then show ?thesis using assms by simp
  next
    case arm
    then show ?thesis using k by (simp add: update_conv')
  next
    case fire
    then show ?thesis using assms(1) k by simp
  next
    case del
    then show ?thesis using assms(2) k by (simp add: delete_conv')
  qed
qed

lemma delete_if_present:
  "(if map_of al k \<noteq> None then AList.delete k al else al) = AList.delete k al"
proof (cases "map_of al k")
  case None
  then have "k \<notin> fst ` set al" by (simp add: map_of_eq_None_iff)
  then have "AList.delete k al = al" by (rule AList.delete_id)
  then show ?thesis using None by simp
next
  case (Some v)
  then show ?thesis by simp
qed

lemma stop_monitoring_registered:
  assumes "str d \<in> monitoring_tasks m"
  shows "temperature_alerts (stop_monitoring d m) = AList.delete (str d) (temperature_alerts m)"
proof -
  have "temperature_alerts (stop_monitoring d m)
          = (if map_of (temperature_alerts m) (str d) \<noteq> None
             then AList.delete (str d) (temperature_alerts m) else temperature_alerts m)"
    using assms by (simp add: stop_monitoring_def)
  then show ?thesis by (simp only: delete_if_present)
qed

lemma stop_monitoring_tasks:
  assumes "str d \<in> monitoring_tasks m"
  shows "monitoring_tasks (stop_monitoring d m) = monitoring_tasks m - {str d}"
  using assms by (simp add: stop_monitoring_def)

lemma stop_monitoring_unregistered:
  assumes "str d \<notin> monitoring_tasks m"
  shows "stop_monitoring d m = m"
  using assms by (simp add: stop_monitoring_def)

lemma stop_monitoring_table:
  "temperature_alerts (stop_monitoring d m) = temperature_alerts m
   \<or> temperature_alerts (stop_monitoring d m) = AList.delete (str d) (temperature_alerts m)"
  using stop_monitoring_registered [of d m] stop_monitoring_unregistered [of d m] by metis

lemma stop_monitoring_removes:
  assumes "fst ` set (temperature_alerts m) \<subseteq> monitoring_tasks m"
  shows "map_of (temperature_alerts (stop_monitoring d m)) (str d) = None"
proof (cases "str d \<in> monitoring_tasks m")
  case True
  show ?thesis by (simp add: stop_monitoring_registered [OF True] delete_conv')
next
  case False
  then have "str d \<notin> fst ` set (temperature_alerts m)" using assms by blast
  then have "map_of (temperature_alerts m) (str d) = None" by (simp add: map_of_eq_None_iff)
  then show ?thesis by (simp add: stop_monitoring_unregistered [OF False])
qed

lemma hb_step_invariant:
  assumes "distinct (map fst (temperature_alerts m))"
    "fst ` set (temperature_alerts m) \<subseteq> monitoring_tasks m"
  shows "distinct (map fst (temperature_alerts (hb_step m e)))
         \<and> fst ` set (temperature_alerts (hb_step m e)) \<subseteq> monitoring_tasks (hb_step m e)"
proof (cases e)
  case (Start_monitoring d)
  have a: "temperature_alerts (hb_step m e) = temperature_alerts m"
    unfolding Start_monitoring by (simp add: start_temperature_monitoring_def)
  have t: "monitoring_tasks m \<subseteq> monitoring_tasks (hb_step m e)"
    unfolding Start_monitoring by (auto simp: start_temperature_monitoring_def)
  show ?thesis unfolding a using assms t by (intro conjI) (assumption, rule subset_trans)
next
  case (Monitor_iteration d p)
  show ?thesis
  proof (cases "str d \<in> monitoring_tasks m")
    case True
    have "insert (str d) (fst ` set (temperature_alerts m)) \<subseteq> monitoring_tasks m"
      using assms(2) True by (simp only: insert_subset simp_thms)
    then have k: "fst ` set (temperature_alerts (monitor_temperature_iteration d m p)) \<subseteq> monitoring_tasks m"
      by (rule subset_trans [OF iteration_keys])
    have s: "hb_step m e = monitor_temperature_iteration d m p"
      unfolding Monitor_iteration using True by simp
    show ?thesis
      unfolding s iteration_tasks
      using k iteration_distinct [OF assms(1), of d p] by (intro conjI)
  next
    case False
    have s: "hb_step m e = m" unfolding Monitor_iteration using False by simp
    show ?thesis unfolding s using assms by (intro conjI)
  qed
next
  case (Stop_monitoring d)
  show ?thesis
  proof (cases "str d \<in> monitoring_tasks m")
    case True
    have a: "temperature_alerts (hb_step m e) = AList.delete (str d) (temperature_alerts m)"
      unfolding Stop_monitoring using stop_monitoring_registered [OF True] by simp
    have t: "monitoring_tasks (hb_step m e) = monitoring_tasks m - {str d}"
      unfolding Stop_monitoring using stop_monitoring_tasks [OF True] by simp
    have k: "fst ` set (AList.delete (str d) (temperature_alerts m))
                     \<subseteq> monitoring_tasks m - {str d}"
      unfolding keys_delete using assms(2) by (intro Diff_mono subset_refl)
    have d: "distinct (map fst (AList.delete (str d) (temperature_alerts m)))"
      using assms(1) by (rule distinct_delete)
    show ?thesis unfolding a t using k d by (intro conjI)
  next
    case False
    have s: "hb_step m e = m"
      unfolding Stop_monitoring using stop_monitoring_unregistered [OF False] by simp
    show ?thesis unfolding s using assms by (intro conjI)
  qed
qed

lemma hb_run_invariant:
  assumes "distinct (map fst (temperature_alerts m))"
    "fst ` set (temperature_alerts m) \<subseteq> monitoring_tasks m"
  shows "distinct (map fst (temperature_alerts (hb_run m es)))
         \<and> fst ` set (temperature_alerts (hb_run m es)) \<subseteq> monitoring_tasks (hb_run m es)"
  using assms
proof (induction es arbitrary: m)
  case Nil
  then show ?case by simp
next
  case (Cons e es)
  from hb_step_invariant [OF Cons.prems, of e] Cons.IH show ?case by simp
qed

lemma distinct_keys_count:
  assumes "distinct (map fst al)"
  shows "length (filter (\<lambda>e. fst e = k) al) \<le> 1"
  using assms
proof (induction al)
  case Nil
  show ?case by simp
next
  case (Cons x xs)
  show ?case
  proof (cases "fst x = k")
    case True
    then have "k \<notin> fst ` set xs" using Cons.prems by auto
    then have "filter (\<lambda>e. fst e = k) xs = []" by (auto simp: filter_empty_conv)
    then show ?thesis using True by simp
  next
    case False
    then show ?thesis using Cons by simp
  qed
qed

text \<open>
  C9.  In every state the heating-bed manager reaches from its initial state by
  starting monitoring, monitor iterations and stopping monitoring, for any devices in
  any order: the table \<open>_temperature_alerts\<close> holds at most one entry per key
  \<open>str(device_id)\<close> (the manager has the one alert kind \<open>temperature_deviation\<close>); a step
  creates an entry only as a monitor iteration that observes the deviation for a
  device without one, with the poll's clock as time of first detection and the alert
  not yet sent; an iteration that observes the deviation gone leaves no entry for the
  device; and \<open>stop_monitoring\<close> leaves no entry for the device.
\<close>

theorem alert_table_invariant:
  assumes "m = hb_run HeatingBedManager_init es"
  shows
    "(\<forall>k. length (filter (\<lambda>e. fst e = k) (temperature_alerts m)) \<le> 1)
     \<and> (\<forall>e k. map_of (temperature_alerts m) k = None
               \<and> map_of (temperature_alerts (hb_step m e)) k \<noteq> None \<longrightarrow>
          (\<exists>d p. e = Monitor_iteration d p \<and> k = str d \<and> deviation_observed p
                 \<and> map_of (temperature_alerts (hb_step m e)) k
                     = Some \<lparr>first_detected = utcnow p, alert_sent = False\<rparr>))
     \<and> (\<forall>d p. deviation_cleared p \<longrightarrow>
          map_of (temperature_alerts (hb_step m (Monitor_iteration d p))) (str d) = None)
     \<and> (\<forall>d. map_of (temperature_alerts (hb_step m (Stop_monitoring d))) (str d) = None)"
proof -
  have inv: "distinct (map fst (temperature_alerts m))"
            "fst ` set (temperature_alerts m) \<subseteq> monitoring_tasks m"
    using hb_run_invariant [of HeatingBedManager_init es] assms
    by (simp_all add: HeatingBedManager_init_def)
  have one: "\<forall>k. length (filter (\<lambda>e. fst e = k) (temperature_alerts m)) \<le> 1"
    using distinct_keys_count [OF inv(1)] by blast
  have created: "\<exists>d p. e = Monitor_iteration d p \<and> k = str d \<and> deviation_observed p
                 \<and> map_of (temperature_alerts (hb_step m e)) k
                     = Some \<lparr>first_detected = utcnow p, alert_sent = False\<rparr>"
    if n: "map_of (temperature_alerts m) k = None"
      and s: "map_of (temperature_alerts (hb_step m e)) k \<noteq> None" for e k
  proof (cases e)
    case (Start_monitoring d)
    then have "temperature_alerts (hb_step m e) = temperature_alerts m"
      by (simp add: start_temperature_monitoring_def)
    then show ?thesis using n s by simp
  next
    case (Monitor_iteration d p)
    show ?thesis
    proof (cases "str d \<in> monitoring_tasks m")
      case True
      then have st: "hb_step m e = monitor_temperature_iteration d m p"
        using Monitor_iteration by simp
      have s': "map_of (temperature_alerts (monitor_temperature_iteration d m p)) k \<noteq> None"
        using s st by simp
      from iteration_new_entry [OF n s']
      have f: "k = str d" "deviation_observed p"
        "map_of (temperature_alerts (monitor_temperature_iteration d m p)) k
           = Some \<lparr>first_detected = utcnow p, alert_sent = False\<rparr>"
        by blast+
      have "map_of (temperature_alerts (hb_step m e)) k
              = Some \<lparr>first_detected = utcnow p, alert_sent = False\<rparr>"
        using f(3) by (simp only: st)
      then show ?thesis using Monitor_iteration f(1,2) by blast
    next
      case False
      then show ?thesis using Monitor_iteration n s by simp
    qed
  next
    case (Stop_monitoring d)
    then have st: "hb_step m e = stop_monitoring d m" by simp
    consider "temperature_alerts (stop_monitoring d m) = temperature_alerts m"
      | "temperature_alerts (stop_monitoring d m) = AList.delete (str d) (temperature_alerts m)"
      using stop_monitoring_table [of d m] by blast
    then have "map_of (temperature_alerts (stop_monitoring d m)) k = None"
    proof cases
      case 1
      then show ?thesis using n by simp
    next
      case 2
      then show ?thesis using n by (simp add: delete_conv')
    qed
    then show ?thesis using s by (simp add: st)
  qed
  have cleared: "map_of (temperature_alerts (hb_step m (Monitor_iteration d p))) (str d) = None"
    if c: "deviation_cleared p" for d p
  proof (cases "str d \<in> monitoring_tasks m")
    case True
    then show ?thesis using run_entry_after [OF c] by simp
  next
    case False
    then have "str d \<notin> fst ` set (temperature_alerts m)" using inv(2) by blast
    then show ?thesis using False by (simp add: map_of_eq_None_iff)
  qed
  have stopped: "map_of (temperature_alerts (hb_step m (Stop_monitoring d))) (str d) = None" for d
    using stop_monitoring_removes [OF inv(2)] by simp
  show ?thesis
  proof (intro conjI allI impI)
    fix k show "length (filter (\<lambda>e. fst e = k) (temperature_alerts m)) \<le> 1"
      using one by (rule spec)
  next
    fix e k
    assume "map_of (temperature_alerts m) k = None
               \<and> map_of (temperature_alerts (hb_step m e)) k \<noteq> None"
    then show "\<exists>d p. e = Monitor_iteration d p \<and> k = str d \<and> deviation_observed p
                 \<and> map_of (temperature_alerts (hb_step m e)) k
                     = Some \<lparr>first_detected = utcnow p, alert_sent = False\<rparr>"
      using created [of k e] by (elim conjE)
  next
    fix d p assume "deviation_cleared p"
    then show "map_of (temperature_alerts (hb_step m (Monitor_iteration d p))) (str d) = None"
      by (rule cleared)
  next
    fix d show "map_of (temperature_alerts (hb_step m (Stop_monitoring d))) (str d) = None"
      by (rule stopped)
  qed
qed

theorem alert_table_invariant_witness:
  "map_of (temperature_alerts (hb_run HeatingBedManager_init
       [Start_monitoring 1, Monitor_iteration 1 (deviating_poll 0)])) (str 1)
     = Some \<lparr>first_detected = seconds 0, alert_sent = False\<rparr>
   \<and> map_of (temperature_alerts (hb_run HeatingBedManager_init
       [Start_monitoring 1, Monitor_iteration 1 (deviating_poll 0),
        Monitor_iteration 1 (normal_poll 30)])) (str 1) = None
   \<and> map_of (temperature_alerts (hb_run HeatingBedManager_init
       [Start_monitoring 1, Monitor_iteration 1 (deviating_poll 0), Stop_monitoring 1])) (str 1) = None
   \<and> length (filter (\<lambda>e. fst e = str 1)
         (temperature_alerts (hb_run HeatingBedManager_init
            [Start_monitoring 1, Monitor_iteration 1 (deviating_poll 0),
             Monitor_iteration 1 (deviating_poll 30)]))) \<le> 1"
proof -
  let ?i = HeatingBedManager_init
  let ?e1 = "Start_monitoring 1" and ?e2 = "Monitor_iteration 1 (deviating_poll 0)"
  let ?m1 = "hb_run ?i [?e1]" and ?m2 = "hb_run ?i [?e1, ?e2]"
  have r1: "?m2 = hb_step ?m1 ?e2" by (simp only: hb_run.simps)
  have r2: "hb_run ?i [?e1, ?e2, Monitor_iteration 1 (normal_poll 30)]
              = hb_step ?m2 (Monitor_iteration 1 (normal_poll 30))"
    by (simp only: hb_run.simps)
  have r3: "hb_run ?i [?e1, ?e2, Stop_monitoring 1] = hb_step ?m2 (Stop_monitoring 1)"
    by (simp only: hb_run.simps)
  note a = alert_table_invariant [OF refl, of "[?e1]"]
  note b = alert_table_invariant [OF refl, of "[?e1, ?e2]"]
  note c = alert_table_invariant
             [OF refl, of "[?e1, ?e2, Monitor_iteration 1 (deviating_poll 30)]"]
  have n: "map_of (temperature_alerts ?m1) (str 1) = None"
    by (simp add: HeatingBedManager_init_def start_temperature_monitoring_def)
  have t: "str 1 \<in> monitoring_tasks ?m1"
    by (simp add: HeatingBedManager_init_def start_temperature_monitoring_def)
  have s: "map_of (temperature_alerts (hb_step ?m1 ?e2)) (str 1) \<noteq> None"
    using t iteration_arm [OF deviating_poll_observed n, of 0]
    by (simp add: update_conv' del: hb_run.simps)
  from a n s obtain d p where dp: "?e2 = Monitor_iteration d p"
    "map_of (temperature_alerts (hb_step ?m1 ?e2)) (str 1)
       = Some \<lparr>first_detected = utcnow p, alert_sent = False\<rparr>"
    by blast
  from dp(1) have "p = deviating_poll 0" by simp
  then have "utcnow p = seconds 0" by (simp add: deviating_poll_def)
  then have w1: "map_of (temperature_alerts ?m2) (str 1)
                   = Some \<lparr>first_detected = seconds 0, alert_sent = False\<rparr>"
    using dp(2) by (simp only: r1)
  have w2: "map_of (temperature_alerts (hb_step ?m2 (Monitor_iteration 1 (normal_poll 30)))) (str 1) = None"
    using b normal_poll_cleared [of 30] by blast
  have w3: "map_of (temperature_alerts (hb_step ?m2 (Stop_monitoring 1))) (str 1) = None"
    using b by blast
  have w4: "length (filter (\<lambda>e. fst e = str 1)
         (temperature_alerts (hb_run ?i [?e1, ?e2, Monitor_iteration 1 (deviating_poll 30)]))) \<le> 1"
    using c by blast
  show ?thesis using w1 w2 w3 w4 by (simp only: r2 r3)
qed

end
